theory Spec2Isabelle
  imports Complex_Main "HOL-Library.Word"
begin

section \<open>Python values\<close>

text \<open>
  The two pipelines (\<^verbatim>\<open>alice_paralegal_pipeline.py\<close> and
  \<^verbatim>\<open>legal_vision_pipeline.py\<close>) inspect chat messages by dynamic type tests, so
  the messages and the parsed JSON of the backend are modelled as untyped Python values.
  A dict is an association list read with \<open>map_of\<close>; scalars other than strings behave
  alike in every branch of the code and are represented by \<open>PNone\<close>, \<open>PBool\<close> and
  \<open>PInt\<close>.

  A Python \<^verbatim>\<open>str\<close> is a \<open>string\<close> holding its UTF-8 bytes. The code looks
  only for ASCII characters (the prefix \<^verbatim>\<open>data:image\<close>, the comma), and an ASCII byte
  never occurs inside the UTF-8 encoding of another character, so prefix test, split and
  concatenation agree with Python's on code points.
\<close>

datatype pyval =
    PNone
  | PBool bool
  | PInt int
  | PStr string
  | PList "pyval list"
  | PDict "(string \<times> pyval) list"

type_synonym bytes = "8 word list"

text \<open>
  The exceptions the code can meet. \<open>AttributeError v a\<close>: value \<open>v\<close> has no attribute
  \<open>a\<close>; \<open>TypeError v\<close>: an operation was applied to the value \<open>v\<close> of the wrong type.
\<close>

datatype exn =
    AttributeError pyval string
  | TypeError pyval
  | KeyError string
  | IndexError
  | ValueError

subsection \<open>Built-in operations\<close>

text \<open>\<^verbatim>\<open>d.get(k, default)\<close> on a dict, and on an arbitrary value.\<close>

definition dict_get :: "(string \<times> pyval) list \<Rightarrow> string \<Rightarrow> pyval \<Rightarrow> pyval" where
  "dict_get d k dflt = (case map_of d k of None \<Rightarrow> dflt | Some v \<Rightarrow> v)"

fun py_get :: "pyval \<Rightarrow> string \<Rightarrow> pyval \<Rightarrow> exn + pyval" where
  "py_get (PDict d) k dflt = Inr (dict_get d k dflt)"
| "py_get v k dflt = Inl (AttributeError v ''get'')"

text \<open>\<^verbatim>\<open>s.startswith(p)\<close> on strings.\<close>

definition startswith :: "string \<Rightarrow> string \<Rightarrow> bool" where
  "startswith s p = (take (length p) s = p)"

text \<open>
  \<^verbatim>\<open>s.split(sep, maxsplit)\<close> for a one-character separator; \<open>cur\<close> is the piece
  being read. A negative \<open>maxsplit\<close> (Python's default \<open>-1\<close>) never reaches \<open>0\<close>, so
  every separator splits.
\<close>

fun py_split :: "char \<Rightarrow> int \<Rightarrow> string \<Rightarrow> string \<Rightarrow> string list" where
  "py_split sep maxsplit cur [] = [cur]"
| "py_split sep maxsplit cur (c # cs) =
     (if c = sep \<and> maxsplit \<noteq> 0 then cur # py_split sep (maxsplit - 1) [] cs
      else py_split sep maxsplit (cur @ [c]) cs)"

text \<open>\<^verbatim>\<open>xs[i]\<close> for an index \<open>i \<ge> 0\<close>: IndexError out of range.\<close>

definition py_index :: "'a list \<Rightarrow> nat \<Rightarrow> exn + 'a" where
  "py_index xs i = (if i < length xs then Inr (xs ! i) else Inl IndexError)"

text \<open>\<^verbatim>\<open>sep.join(parts)\<close>: on strings, and on a list of arbitrary values, where the
  first element that is not a string raises TypeError.\<close>

fun join_str :: "string \<Rightarrow> string list \<Rightarrow> string" where
  "join_str sep [] = []"
| "join_str sep [x] = x"
| "join_str sep (x # y # ys) = x @ sep @ join_str sep (y # ys)"

fun strs_of :: "pyval list \<Rightarrow> exn + string list" where
  "strs_of [] = Inr []"
| "strs_of (PStr s # vs) = (case strs_of vs of Inl e \<Rightarrow> Inl e | Inr ss \<Rightarrow> Inr (s # ss))"
| "strs_of (v # vs) = Inl (TypeError v)"

definition py_join :: "string \<Rightarrow> pyval list \<Rightarrow> exn + string" where
  "py_join sep parts = (case strs_of parts of Inl e \<Rightarrow> Inl e | Inr ss \<Rightarrow> Inr (join_str sep ss))"

text \<open>
  \<^verbatim>\<open>s.strip()\<close>. The white space of a Python \<^verbatim>\<open>str\<close>, each character as its
  UTF-8 bytes: the ASCII ones (tab, line feed, vertical tab, form feed, carriage return,
  the separators \<open>0x1C\<close> to \<open>0x1F\<close>, space), then U+0085, U+00A0, U+1680, U+2000 to
  U+200A, U+2028, U+2029, U+202F, U+205F and U+3000.
\<close>

definition py_whitespace :: "string list" where
  "py_whitespace =
     [[CHR 0x09], [CHR 0x0A], [CHR 0x0B], [CHR 0x0C], [CHR 0x0D],
      [CHR 0x1C], [CHR 0x1D], [CHR 0x1E], [CHR 0x1F], [CHR 0x20],
      [CHR 0xC2, CHR 0x85], [CHR 0xC2, CHR 0xA0],
      [CHR 0xE1, CHR 0x9A, CHR 0x80],
      [CHR 0xE2, CHR 0x80, CHR 0x80], [CHR 0xE2, CHR 0x80, CHR 0x81],
      [CHR 0xE2, CHR 0x80, CHR 0x82], [CHR 0xE2, CHR 0x80, CHR 0x83],
      [CHR 0xE2, CHR 0x80, CHR 0x84], [CHR 0xE2, CHR 0x80, CHR 0x85],
      [CHR 0xE2, CHR 0x80, CHR 0x86], [CHR 0xE2, CHR 0x80, CHR 0x87],
      [CHR 0xE2, CHR 0x80, CHR 0x88], [CHR 0xE2, CHR 0x80, CHR 0x89],
      [CHR 0xE2, CHR 0x80, CHR 0x8A],
      [CHR 0xE2, CHR 0x80, CHR 0xA8], [CHR 0xE2, CHR 0x80, CHR 0xA9],
      [CHR 0xE2, CHR 0x80, CHR 0xAF],
      [CHR 0xE2, CHR 0x81, CHR 0x9F],
      [CHR 0xE3, CHR 0x80, CHR 0x80]]"

text \<open>
  Removing, as long as there is one, a leading character of the list \<open>ws\<close>. A white
  space character at the end of a string is found in the same way on the reversed bytes:
  every encoding in the table starts at a character boundary.
\<close>

function strip_leading :: "string list \<Rightarrow> string \<Rightarrow> string" where
  "strip_leading ws s =
     (case List.find (\<lambda>w. w \<noteq> [] \<and> startswith s w) ws of
        None \<Rightarrow> s
      | Some w \<Rightarrow> strip_leading ws (drop (length w) s))"
  by pat_completeness auto
termination
proof (relation "measure (\<lambda>(ws, s). length s)")
  show "wf (measure (\<lambda>(ws, s). length s))" by simp
next
  fix ws :: "string list" and s w :: string
  assume "List.find (\<lambda>w. w \<noteq> [] \<and> startswith s w) ws = Some w"
  then have "w \<noteq> []" and "startswith s w"
    by (auto simp: find_Some_iff)
  then have "s \<noteq> []"
    by (auto simp: startswith_def)
  with \<open>w \<noteq> []\<close> show "((ws, drop (length w) s), (ws, s)) \<in> measure (\<lambda>(ws, s). length s)"
    by simp
qed

definition strip :: "string \<Rightarrow> string" where
  "strip s = rev (strip_leading (map rev py_whitespace) (rev (strip_leading py_whitespace s)))"

section \<open>The content extractor\<close>

subsection \<open>Alice Paralegal: \<^verbatim>\<open>_extract_images\<close>\<close>

text \<open>
  \<open>b64decode\<close> is \<^verbatim>\<open>base64.b64decode\<close> applied to a \<^verbatim>\<open>str\<close>: it returns the
  bytes or raises \<^verbatim>\<open>ValueError\<close> (\<^verbatim>\<open>binascii.Error\<close> is a subclass), which is
  \<open>None\<close>. The state of the two nested loops is the pair \<open>(images, text_parts)\<close>.

  The body of the \<^verbatim>\<open>try\<close> statement, lines 67 and 68:
\<close>

definition decode_data_url :: "(string \<Rightarrow> bytes option) \<Rightarrow> string \<Rightarrow> exn + bytes" where
  "decode_data_url b64decode url =
     (case py_index (py_split CHR '','' 1 [] url) 1 of
        Inl e \<Rightarrow> Inl e
      | Inr base64_data \<Rightarrow>
          (case b64decode base64_data of None \<Rightarrow> Inl ValueError | Some image_bytes \<Rightarrow> Inr image_bytes))"

text \<open>One pass of the inner loop \<^verbatim>\<open>for item in content\<close>, lines 60 to 73.\<close>

fun extract_item ::
  "(string \<Rightarrow> bytes option) \<Rightarrow> bytes list \<times> pyval list \<Rightarrow> pyval \<Rightarrow> exn + bytes list \<times> pyval list"
where
  "extract_item b64decode (images, text_parts) (PDict item) =
     (if dict_get item ''type'' PNone = PStr ''text'' then
        Inr (images, text_parts @ [dict_get item ''text'' (PStr '''')])
      else if dict_get item ''type'' PNone = PStr ''image_url'' then
        (case py_get (dict_get item ''image_url'' (PDict [])) ''url'' (PStr '''') of
           Inl e \<Rightarrow> Inl e
         | Inr (PStr url) \<Rightarrow>
             (if startswith url ''data:image'' then
                (case decode_data_url b64decode url of
                   Inr image_bytes \<Rightarrow> Inr (images @ [image_bytes], text_parts)
                 | Inl e \<Rightarrow> (if e = IndexError \<or> e = ValueError then Inr (images, text_parts)
                             else Inl e))
              else Inr (images, text_parts))
         | Inr v \<Rightarrow> Inl (AttributeError v ''startswith''))
      else Inr (images, text_parts))"
| "extract_item b64decode (images, text_parts) (PStr s) = Inr (images, text_parts @ [PStr s])"
| "extract_item b64decode (images, text_parts) v = Inr (images, text_parts)"

fun extract_items ::
  "(string \<Rightarrow> bytes option) \<Rightarrow> bytes list \<times> pyval list \<Rightarrow> pyval list \<Rightarrow> exn + bytes list \<times> pyval list"
where
  "extract_items b64decode acc [] = Inr acc"
| "extract_items b64decode acc (item # content) =
     (case extract_item b64decode acc item of
        Inl e \<Rightarrow> Inl e
      | Inr acc' \<Rightarrow> extract_items b64decode acc' content)"

text \<open>One pass of the outer loop \<^verbatim>\<open>for msg in messages\<close>, lines 52 to 73.\<close>

fun extract_msg ::
  "(string \<Rightarrow> bytes option) \<Rightarrow> bytes list \<times> pyval list \<Rightarrow> pyval \<Rightarrow> exn + bytes list \<times> pyval list"
where
  "extract_msg b64decode (images, text_parts) (PDict msg) =
     (case dict_get msg ''content'' (PStr '''') of
        PStr content \<Rightarrow> Inr (images, text_parts @ [PStr content])
      | PList content \<Rightarrow> extract_items b64decode (images, text_parts) content
      | _ \<Rightarrow> Inr (images, text_parts))"
| "extract_msg b64decode (images, text_parts) v = Inl (AttributeError v ''get'')"

fun extract_msgs ::
  "(string \<Rightarrow> bytes option) \<Rightarrow> bytes list \<times> pyval list \<Rightarrow> pyval list \<Rightarrow> exn + bytes list \<times> pyval list"
where
  "extract_msgs b64decode acc [] = Inr acc"
| "extract_msgs b64decode acc (msg # messages) =
     (case extract_msg b64decode acc msg of
        Inl e \<Rightarrow> Inl e
      | Inr acc' \<Rightarrow> extract_msgs b64decode acc' messages)"

definition extract_images ::
  "(string \<Rightarrow> bytes option) \<Rightarrow> pyval list \<Rightarrow> exn + bytes list \<times> string"
where
  "extract_images b64decode messages =
     (case extract_msgs b64decode ([], []) messages of
        Inl e \<Rightarrow> Inl e
      | Inr (images, text_parts) \<Rightarrow>
          (case py_join '' '' text_parts of
             Inl e \<Rightarrow> Inl e
           | Inr text \<Rightarrow> Inr (images, text)))"

subsection \<open>Legal Vision: \<^verbatim>\<open>_has_images\<close>\<close>

text \<open>
  The same walk; the images stay base64 text (nothing is decoded), the split has no
  \<open>maxsplit\<close> and only \<^verbatim>\<open>IndexError\<close> is caught.
\<close>

definition data_url_payload :: "string \<Rightarrow> exn + string" where
  "data_url_payload url = py_index (py_split CHR '','' (- 1) [] url) 1"

fun has_images_item ::
  "string list \<times> pyval list \<Rightarrow> pyval \<Rightarrow> exn + string list \<times> pyval list"
where
  "has_images_item (images, text_parts) (PDict item) =
     (if dict_get item ''type'' PNone = PStr ''text'' then
        Inr (images, text_parts @ [dict_get item ''text'' (PStr '''')])
      else if dict_get item ''type'' PNone = PStr ''image_url'' then
        (case py_get (dict_get item ''image_url'' (PDict [])) ''url'' (PStr '''') of
           Inl e \<Rightarrow> Inl e
         | Inr (PStr url) \<Rightarrow>
             (if startswith url ''data:image'' then
                (case data_url_payload url of
                   Inr base64_data \<Rightarrow> Inr (images @ [base64_data], text_parts)
                 | Inl e \<Rightarrow> (if e = IndexError then Inr (images, text_parts) else Inl e))
              else Inr (images, text_parts))
         | Inr v \<Rightarrow> Inl (AttributeError v ''startswith''))
      else Inr (images, text_parts))"
| "has_images_item (images, text_parts) (PStr s) = Inr (images, text_parts @ [PStr s])"
| "has_images_item (images, text_parts) v = Inr (images, text_parts)"

fun has_images_items ::
  "string list \<times> pyval list \<Rightarrow> pyval list \<Rightarrow> exn + string list \<times> pyval list"
where
  "has_images_items acc [] = Inr acc"
| "has_images_items acc (item # content) =
     (case has_images_item acc item of
        Inl e \<Rightarrow> Inl e
      | Inr acc' \<Rightarrow> has_images_items acc' content)"

fun has_images_msg ::
  "string list \<times> pyval list \<Rightarrow> pyval \<Rightarrow> exn + string list \<times> pyval list"
where
  "has_images_msg (images, text_parts) (PDict msg) =
     (case dict_get msg ''content'' (PStr '''') of
        PStr content \<Rightarrow> Inr (images, text_parts @ [PStr content])
      | PList content \<Rightarrow> has_images_items (images, text_parts) content
      | _ \<Rightarrow> Inr (images, text_parts))"
| "has_images_msg (images, text_parts) v = Inl (AttributeError v ''get'')"

fun has_images_msgs ::
  "string list \<times> pyval list \<Rightarrow> pyval list \<Rightarrow> exn + string list \<times> pyval list"
where
  "has_images_msgs acc [] = Inr acc"
| "has_images_msgs acc (msg # messages) =
     (case has_images_msg acc msg of
        Inl e \<Rightarrow> Inl e
      | Inr acc' \<Rightarrow> has_images_msgs acc' messages)"

definition has_images :: "pyval list \<Rightarrow> exn + bool \<times> string list \<times> string" where
  "has_images messages =
     (case has_images_msgs ([], []) messages of
        Inl e \<Rightarrow> Inl e
      | Inr (images, text_parts) \<Rightarrow>
          (case py_join '' '' text_parts of
             Inl e \<Rightarrow> Inl e
           | Inr text \<Rightarrow> Inr (0 < length images, images, text)))"

section \<open>The environment\<close>

text \<open>
  The HTTP backend, the OCR engine, the base64 decoder and the interpreter's rendering of
  values and exceptions are outside the two scripts. They are parameters of the model, and
  every theorem below holds for each choice of them.

  A request is what \<^verbatim>\<open>requests.post\<close> receives: the URL, the fields of the JSON
  payload (\<open>req_images = None\<close> when the payload has no \<^verbatim>\<open>images\<close> key), the
  \<^verbatim>\<open>stream\<close> keyword (\<open>False\<close> when it is not passed) and the time-out in seconds.
  The temperature is a float that the code only copies, so its type is left open.
\<close>

record 'f request =
  req_url :: string
  req_model :: string
  req_prompt :: string
  req_stream :: bool
  req_images :: "string list option"
  req_temperature :: 'f
  http_stream :: bool
  http_timeout :: nat

text \<open>
  A line delivered by \<^verbatim>\<open>response.iter_lines()\<close>, together with what
  \<^verbatim>\<open>json.loads\<close> does on it: the empty (falsy) line, a line that parses to a value, a
  line on which \<^verbatim>\<open>json.loads\<close> raises \<^verbatim>\<open>JSONDecodeError\<close>, and a line on which it
  raises another exception with the given text.
\<close>

datatype line = Blank | Json pyval | BadJson | Undecodable string

text \<open>
  A response: its status code, the text of the \<^verbatim>\<open>HTTPError\<close> that
  \<^verbatim>\<open>raise_for_status\<close> raises for this status when it raises, the lines of the body
  followed, when \<open>body_break = Some m\<close>, by an exception with text \<open>m\<close> raised by the
  line iterator (the connection broke), and the result of \<^verbatim>\<open>response.json()\<close>
  (\<open>Inl m\<close>: it raises with text \<open>m\<close>).
\<close>

record response =
  status_code :: int
  http_error :: string
  body_lines :: "line list"
  body_break :: "string option"
  body_json :: "string + pyval"

datatype post_result = PostRaises string | Responded response

record 'f world =
  requests_post :: "'f request \<Rightarrow> post_result"
  str_exn :: "exn \<Rightarrow> string"
  str_val :: "pyval \<Rightarrow> string"
  b64decode :: "string \<Rightarrow> bytes option"
  TESSERACT_AVAILABLE :: bool
  image_to_string :: "bytes \<Rightarrow> string + string"

text \<open>
  \<open>str_exn\<close> and \<open>str_val\<close> are Python's \<^verbatim>\<open>str()\<close> on an exception raised by the
  interpreter and on a value that is not a string. \<open>image_to_string\<close> is
  \<^verbatim>\<open>Image.open\<close> followed by \<^verbatim>\<open>pytesseract.image_to_string\<close>: \<open>Inr\<close> the
  recognised text, \<open>Inl\<close> the text of the exception raised by either.

  What a run does, in order: the fragments it yields, the requests it posts and the calls of
  \<^verbatim>\<open>_ocr_image\<close>. The trace is that of a caller who reads the generator to its end.
\<close>

datatype 'f event = Emit pyval | Post "'f request" | Ocr bytes

fun fragments :: "'f event list \<Rightarrow> pyval list" where
  "fragments [] = []"
| "fragments (Emit v # es) = v # fragments es"
| "fragments (e # es) = fragments es"

fun requests :: "'f event list \<Rightarrow> 'f request list" where
  "requests [] = []"
| "requests (Post r # es) = r # requests es"
| "requests (e # es) = requests es"

fun ocr_calls :: "'f event list \<Rightarrow> bytes list" where
  "ocr_calls [] = []"
| "ocr_calls (Ocr b # es) = b # ocr_calls es"
| "ocr_calls (e # es) = ocr_calls es"

text \<open>\<^verbatim>\<open>response.raise_for_status()\<close> of the requests library raises for the client and
  server error statuses, 400 to 599, and for no other.\<close>

definition raise_for_status :: "response \<Rightarrow> string option" where
  "raise_for_status r =
     (if 400 \<le> status_code r \<and> status_code r < 600 then Some (http_error r) else None)"

text \<open>\<^verbatim>\<open>k in data\<close> and \<^verbatim>\<open>data[k]\<close> for a string \<open>k\<close>.\<close>

fun contains_str :: "string \<Rightarrow> string \<Rightarrow> bool" where
  "contains_str p [] = (p = [])"
| "contains_str p (c # cs) = (startswith (c # cs) p \<or> contains_str p cs)"

fun py_contains :: "string \<Rightarrow> pyval \<Rightarrow> exn + bool" where
  "py_contains k (PDict d) = Inr (map_of d k \<noteq> None)"
| "py_contains k (PStr s) = Inr (contains_str k s)"
| "py_contains k (PList xs) = Inr (List.member xs (PStr k))"
| "py_contains k v = Inl (TypeError v)"

fun py_subscript :: "pyval \<Rightarrow> string \<Rightarrow> exn + pyval" where
  "py_subscript (PDict d) k = (case map_of d k of None \<Rightarrow> Inl (KeyError k) | Some v \<Rightarrow> Inr v)"
| "py_subscript v k = Inl (TypeError v)"

definition py_str :: "'f world \<Rightarrow> pyval \<Rightarrow> string" where
  "py_str w v = (case v of PStr s \<Rightarrow> s | _ \<Rightarrow> str_val w v)"

abbreviation LF :: string where
  "LF \<equiv> [CHR 0x0A]"

section \<open>Backend calls\<close>

text \<open>The fragment of the \<^verbatim>\<open>except Exception\<close> handlers:
  \<^verbatim>\<open>f"Error calling {model}: {str(e)}"\<close>.\<close>

definition calling_error :: "string \<Rightarrow> string \<Rightarrow> pyval" where
  "calling_error model msg = PStr (''Error calling '' @ model @ '': '' @ msg)"

text \<open>
  The loop \<^verbatim>\<open>for line in response.iter_lines()\<close> inside the \<^verbatim>\<open>try\<close>: the
  fragments it yields. An exception other than \<^verbatim>\<open>JSONDecodeError\<close> leaves the loop for
  the handler, which yields the error fragment and ends the generator.
\<close>

fun stream_lines :: "'f world \<Rightarrow> string \<Rightarrow> line list \<Rightarrow> string option \<Rightarrow> pyval list" where
  "stream_lines w model [] brk =
     (case brk of None \<Rightarrow> [] | Some m \<Rightarrow> [calling_error model m])"
| "stream_lines w model (Blank # ls) brk = stream_lines w model ls brk"
| "stream_lines w model (BadJson # ls) brk = stream_lines w model ls brk"
| "stream_lines w model (Undecodable m # ls) brk = [calling_error model m]"
| "stream_lines w model (Json data # ls) brk =
     (case py_contains ''response'' data of
        Inl e \<Rightarrow> [calling_error model (str_exn w e)]
      | Inr False \<Rightarrow> stream_lines w model ls brk
      | Inr True \<Rightarrow>
          (case py_subscript data ''response'' of
             Inl e \<Rightarrow> [calling_error model (str_exn w e)]
           | Inr v \<Rightarrow> v # stream_lines w model ls brk))"

record 'f valves =
  OLLAMA_HOST :: string
  REASONING_MODEL :: string
  TEMPERATURE :: 'f

record 'f vision_valves = "'f valves" +
  VISION_MODEL :: string

subsection \<open>Alice Paralegal: \<^verbatim>\<open>_call_ollama_stream\<close>\<close>

definition call_ollama_stream :: "'f world \<Rightarrow> 'f valves \<Rightarrow> string \<Rightarrow> 'f event list" where
  "call_ollama_stream w v prompt =
     (let payload = \<lparr>req_url = OLLAMA_HOST v @ ''/api/generate'',
                     req_model = REASONING_MODEL v,
                     req_prompt = prompt,
                     req_stream = True,
                     req_images = None,
                     req_temperature = TEMPERATURE v,
                     http_stream = True,
                     http_timeout = 300\<rparr>
      in Post payload #
         map Emit
           (case requests_post w payload of
              PostRaises m \<Rightarrow> [calling_error (REASONING_MODEL v) m]
            | Responded r \<Rightarrow>
                (case raise_for_status r of
                   Some m \<Rightarrow> [calling_error (REASONING_MODEL v) m]
                 | None \<Rightarrow> stream_lines w (REASONING_MODEL v) (body_lines r) (body_break r))))"

subsection \<open>Legal Vision: \<^verbatim>\<open>_call_ollama\<close> and \<^verbatim>\<open>_call_ollama_sync\<close>\<close>

text \<open>\<^verbatim>\<open>if images: payload["images"] = images\<close>: \<^verbatim>\<open>None\<close> and the empty list are
  falsy.\<close>

definition payload_images :: "string list option \<Rightarrow> string list option" where
  "payload_images images =
     (case images of None \<Rightarrow> None | Some xs \<Rightarrow> (if xs \<noteq> [] then Some xs else None))"

text \<open>The non-streaming branch: \<^verbatim>\<open>data = response.json()\<close> and
  \<^verbatim>\<open>data.get("response", "")\<close>, either of which may raise.\<close>

definition json_response :: "'f world \<Rightarrow> response \<Rightarrow> string + pyval" where
  "json_response w r =
     (case body_json r of
        Inl m \<Rightarrow> Inl m
      | Inr data \<Rightarrow>
          (case py_get data ''response'' (PStr '''') of
             Inl e \<Rightarrow> Inl (str_exn w e)
           | Inr v \<Rightarrow> Inr v))"

definition call_ollama ::
  "'f world \<Rightarrow> ('f, 'z) valves_scheme \<Rightarrow> string \<Rightarrow> string \<Rightarrow> string list option \<Rightarrow> bool \<Rightarrow> 'f event list"
where
  "call_ollama w v model prompt images stream =
     (let payload = \<lparr>req_url = OLLAMA_HOST v @ ''/api/generate'',
                     req_model = model,
                     req_prompt = prompt,
                     req_stream = stream,
                     req_images = payload_images images,
                     req_temperature = TEMPERATURE v,
                     http_stream = stream,
                     http_timeout = 300\<rparr>
      in Post payload #
         map Emit
           (case requests_post w payload of
              PostRaises m \<Rightarrow> [calling_error model m]
            | Responded r \<Rightarrow>
                (case raise_for_status r of
                   Some m \<Rightarrow> [calling_error model m]
                 | None \<Rightarrow>
                     (if stream then stream_lines w model (body_lines r) (body_break r)
                      else (case json_response w r of
                              Inl m \<Rightarrow> [calling_error model m]
                            | Inr v \<Rightarrow> [v])))))"

text \<open>\<^verbatim>\<open>_call_ollama_sync\<close> returns its value; the model returns it with the request
  posted.\<close>

definition call_ollama_sync ::
  "'f world \<Rightarrow> ('f, 'z) valves_scheme \<Rightarrow> string \<Rightarrow> string \<Rightarrow> string list option \<Rightarrow> 'f event list \<times> pyval"
where
  "call_ollama_sync w v model prompt images =
     (let payload = \<lparr>req_url = OLLAMA_HOST v @ ''/api/generate'',
                     req_model = model,
                     req_prompt = prompt,
                     req_stream = False,
                     req_images = payload_images images,
                     req_temperature = TEMPERATURE v,
                     http_stream = False,
                     http_timeout = 300\<rparr>
      in ([Post payload],
          (case requests_post w payload of
             PostRaises m \<Rightarrow> calling_error model m
           | Responded r \<Rightarrow>
               (case raise_for_status r of
                  Some m \<Rightarrow> calling_error model m
                | None \<Rightarrow>
                    (case json_response w r of
                       Inl m \<Rightarrow> calling_error model m
                     | Inr v \<Rightarrow> v)))))"

section \<open>Stage 1 of Alice Paralegal: OCR\<close>

text \<open>\<^verbatim>\<open>_ocr_image\<close>, lines 77 to 87.\<close>

definition ocr_image :: "'f world \<Rightarrow> bytes \<Rightarrow> string" where
  "ocr_image w image_bytes =
     (if \<not> TESSERACT_AVAILABLE w then ''Error: pytesseract not installed''
      else (case image_to_string w image_bytes of
              Inr text \<Rightarrow> strip text
            | Inl e \<Rightarrow> ''Error reading image: '' @ e))"

text \<open>
  The loop of \<^verbatim>\<open>pipe\<close>, lines 133 to 136, from the list \<open>all_text\<close> built so far:
  the calls it makes and the final \<open>all_text\<close>. \<open>ocr_stage\<close> adds line 138, the join.
\<close>

fun ocr_loop :: "'f world \<Rightarrow> string list \<Rightarrow> bytes list \<Rightarrow> 'f event list \<times> string list" where
  "ocr_loop w all_text [] = ([], all_text)"
| "ocr_loop w all_text (img_bytes # images) =
     (let ocr_text = ocr_image w img_bytes;
          (calls, final) = ocr_loop w (all_text @ [ocr_text]) images
      in (Ocr img_bytes # calls, final))"

definition ocr_stage :: "'f world \<Rightarrow> bytes list \<Rightarrow> 'f event list \<times> string" where
  "ocr_stage w images =
     (let (calls, all_text) = ocr_loop w [] images
      in (calls, join_str (LF @ LF) all_text))"

section \<open>Prompts and headers\<close>

text \<open>The f-strings of the two \<^verbatim>\<open>pipe\<close> methods. A string is truthy when it is
  not empty. The three emoji of the headers are written as their UTF-8 bytes.\<close>

definition alice_reading_header :: string where
  "alice_reading_header =
     [CHR 0xF0, CHR 0x9F, CHR 0x91, CHR 0x81, CHR 0xEF, CHR 0xB8, CHR 0x8F] @
     '' *Alice Paralegal reading image with Tesseract OCR...*'' @ LF @ LF"

definition alice_extracted_text :: "string \<Rightarrow> string" where
  "alice_extracted_text combined_ocr =
     ''**Extracted Text:**'' @ LF @ ''```'' @ LF @ combined_ocr @ LF @ ''```'' @ LF @ LF @
     ''---'' @ LF @ LF"

definition alice_analyzing_header :: string where
  "alice_analyzing_header =
     [CHR 0xE2, CHR 0x9A, CHR 0x96, CHR 0xEF, CHR 0xB8, CHR 0x8F] @
     '' *Analyzing with deepseek-r1:8b...*'' @ LF @ LF"

definition alice_image_prompt :: "string \<Rightarrow> string \<Rightarrow> string" where
  "alice_image_prompt combined_ocr user_message =
     ''You are a legal reasoning assistant for Texas bar exam preparation.'' @ LF @ LF @
     ''Here is the question extracted from the image:'' @ LF @
     combined_ocr @ LF @ LF @
     ''User asks: '' @
     (if user_message \<noteq> [] then user_message else ''What is the correct answer?'') @ LF @ LF @
     ''Provide thorough legal analysis:'' @ LF @
     ''1. Identify the legal issue(s) being tested'' @ LF @
     ''2. State the applicable rule(s) of law'' @ LF @
     ''3. Apply the rule to these specific facts'' @ LF @
     ''4. Analyze each answer choice - explain why it is correct or incorrect'' @ LF @
     ''5. State the best answer with confidence''"

definition alice_bare_prompt :: "string \<Rightarrow> string" where
  "alice_bare_prompt user_message =
     ''You are a legal reasoning assistant for Texas bar exam preparation.'' @ LF @ LF @
     ''Question: '' @ user_message @ LF @ LF @
     ''Provide thorough legal analysis:'' @ LF @
     ''1. Identify the legal issue(s)'' @ LF @
     ''2. State the applicable rule(s) of law  '' @ LF @
     ''3. Apply the rule to the facts'' @ LF @
     ''4. Reach a conclusion''"

definition vision_analyzing_header :: string where
  "vision_analyzing_header =
     [CHR 0xF0, CHR 0x9F, CHR 0x94, CHR 0x8D] @
     '' *Analyzing image with llava:13b...*'' @ LF @ LF"

definition vision_prompt :: "string \<Rightarrow> string \<Rightarrow> string" where
  "vision_prompt user_message text_content =
     ''Describe this image in detail. If it contains text (like a legal question, '' @ LF @
     ''exam problem, or document), transcribe ALL the text exactly as written. Include any multiple choice '' @ LF @
     ''options if present.'' @ LF @ LF @
     ''User's question: '' @ (if user_message \<noteq> [] then user_message else text_content)"

definition vision_image_analysis :: "string \<Rightarrow> string" where
  "vision_image_analysis image_description =
     ''**Image Analysis:**'' @ LF @ image_description @ LF @ LF @ ''---'' @ LF @ LF"

definition vision_processing_header :: string where
  "vision_processing_header =
     [CHR 0xE2, CHR 0x9A, CHR 0x96, CHR 0xEF, CHR 0xB8, CHR 0x8F] @
     '' *Processing with deepseek-r1:8b for legal reasoning...*'' @ LF @ LF"

definition vision_reasoning_prompt :: "string \<Rightarrow> string \<Rightarrow> string" where
  "vision_reasoning_prompt image_description user_message =
     ''You are a legal reasoning assistant helping with Texas bar exam preparation.'' @ LF @ LF @
     ''Based on this image content:'' @ LF @
     image_description @ LF @ LF @
     ''User's question: '' @
     (if user_message \<noteq> [] then user_message
      else ''Analyze this and provide legal reasoning.'') @ LF @ LF @
     ''Provide thorough legal analysis. If this is a multiple choice question:'' @ LF @
     ''1. Identify the legal issue(s)'' @ LF @
     ''2. State the applicable rule(s) of law'' @ LF @
     ''3. Apply the rule to the facts'' @ LF @
     ''4. Explain why each answer choice is correct or incorrect'' @ LF @
     ''5. State the best answer with confidence''"

definition vision_bare_prompt :: "string \<Rightarrow> string" where
  "vision_bare_prompt user_message =
     ''You are a legal reasoning assistant helping with Texas bar exam preparation.'' @ LF @ LF @
     ''Question: '' @ user_message @ LF @ LF @
     ''Provide thorough legal analysis. If this is a legal question:'' @ LF @
     ''1. Identify the legal issue(s)'' @ LF @
     ''2. State the applicable rule(s) of law  '' @ LF @
     ''3. Apply the rule to the facts'' @ LF @
     ''4. Reach a conclusion''"

section \<open>The dispatchers\<close>

text \<open>
  \<^verbatim>\<open>pipe\<close> of either script: \<open>Inl e\<close> when the exception \<open>e\<close> reaches the caller,
  which can only happen in the extractor, before anything is yielded; otherwise the trace
  of the run. \<open>model_id\<close> and \<open>body\<close> are received and never read.
\<close>

definition alice_pipe ::
  "'f world \<Rightarrow> 'f valves \<Rightarrow> string \<Rightarrow> string \<Rightarrow> pyval list \<Rightarrow> pyval \<Rightarrow> exn + 'f event list"
where
  "alice_pipe w v user_message model_id messages body =
     (case extract_images (b64decode w) messages of
        Inl e \<Rightarrow> Inl e
      | Inr (images, text_content) \<Rightarrow>
          Inr (if images \<noteq> [] then
                 (let (calls, combined_ocr) = ocr_stage w images
                  in [Emit (PStr alice_reading_header)] @ calls @
                     [Emit (PStr (alice_extracted_text combined_ocr)),
                      Emit (PStr alice_analyzing_header)] @
                     call_ollama_stream w v (alice_image_prompt combined_ocr user_message))
               else call_ollama_stream w v (alice_bare_prompt user_message)))"

definition vision_pipe ::
  "'f world \<Rightarrow> 'f vision_valves \<Rightarrow> string \<Rightarrow> string \<Rightarrow> pyval list \<Rightarrow> pyval \<Rightarrow> exn + 'f event list"
where
  "vision_pipe w v user_message model_id messages body =
     (case has_images messages of
        Inl e \<Rightarrow> Inl e
      | Inr (has_image, images, text_content) \<Rightarrow>
          Inr (if has_image then
                 (let (calls, image_description) =
                        call_ollama_sync w v (VISION_MODEL v)
                          (vision_prompt user_message text_content) (Some images)
                  in [Emit (PStr vision_analyzing_header)] @ calls @
                     [Emit (PStr (vision_image_analysis (py_str w image_description))),
                      Emit (PStr vision_processing_header)] @
                     call_ollama w v (REASONING_MODEL v)
                       (vision_reasoning_prompt (py_str w image_description) user_message)
                       None True)
               else call_ollama w v (REASONING_MODEL v) (vision_bare_prompt user_message)
                      None True))"

section \<open>Instances of the environment\<close>

text \<open>
  The defaults of the two \<^verbatim>\<open>Valves\<close> classes, with the temperature \<open>0.3\<close> as a
  rational.
\<close>

definition default_valves :: "rat valves" where
  "default_valves =
     \<lparr>OLLAMA_HOST = ''http://host.docker.internal:11434'',
      REASONING_MODEL = ''deepseek-r1:8b'',
      TEMPERATURE = 3 / 10\<rparr>"

definition default_vision_valves :: "rat vision_valves" where
  "default_vision_valves =
     \<lparr>OLLAMA_HOST = ''http://host.docker.internal:11434'',
      REASONING_MODEL = ''deepseek-r1:8b'',
      TEMPERATURE = 3 / 10,
      VISION_MODEL = ''llava:13b''\<rparr>"

text \<open>
  A decoder to run the model on: the non-strict decoder of CPython's \<^verbatim>\<open>binascii\<close>,
  which \<^verbatim>\<open>base64.b64decode\<close> calls. Characters outside the alphabet are skipped,
  a complete padding ends the input, and the input is refused when it stops inside a
  group of four. \<open>quad_pos\<close>, \<open>leftchar\<close> and \<open>pads\<close> are the variables of its loop.
  A \<^verbatim>\<open>str\<close> with a character beyond ASCII is refused before decoding.
\<close>

definition b64_value :: "char \<Rightarrow> nat option" where
  "b64_value c =
     (let n = (of_char c :: nat) in
      if 65 \<le> n \<and> n \<le> 90 then Some (n - 65)
      else if 97 \<le> n \<and> n \<le> 122 then Some (n - 71)
      else if 48 \<le> n \<and> n \<le> 57 then Some (n + 4)
      else if n = 43 then Some 62
      else if n = 47 then Some 63
      else None)"

fun a2b_base64 :: "nat \<Rightarrow> nat \<Rightarrow> nat \<Rightarrow> bytes \<Rightarrow> string \<Rightarrow> bytes option" where
  "a2b_base64 quad_pos leftchar pads out [] = (if quad_pos \<noteq> 0 then None else Some out)"
| "a2b_base64 quad_pos leftchar pads out (c # cs) =
     (if c = CHR ''='' then
        (if 2 \<le> quad_pos then
           (if 4 \<le> quad_pos + (pads + 1) then Some out
            else a2b_base64 quad_pos leftchar (pads + 1) out cs)
         else a2b_base64 quad_pos leftchar pads out cs)
      else
        (case b64_value c of
           None \<Rightarrow> a2b_base64 quad_pos leftchar pads out cs
         | Some this_ch \<Rightarrow>
             (if quad_pos = 0 then a2b_base64 1 this_ch 0 out cs
              else if quad_pos = 1 then
                a2b_base64 2 (this_ch mod 16) 0 (out @ [of_nat (leftchar * 4 + this_ch div 16)]) cs
              else if quad_pos = 2 then
                a2b_base64 3 (this_ch mod 4) 0 (out @ [of_nat (leftchar * 16 + this_ch div 4)]) cs
              else a2b_base64 0 0 0 (out @ [of_nat (leftchar * 64 + this_ch)]) cs)))"

definition b64decode_cpython :: "string \<Rightarrow> bytes option" where
  "b64decode_cpython s =
     (if list_ex (\<lambda>c. 128 \<le> (of_char c :: nat)) s then None else a2b_base64 0 0 0 [] s)"

text \<open>
  A world whose backend is \<open>backend\<close>, with OCR installed or not and \<open>engine\<close> as the
  OCR engine. The texts of \<open>str_exn\<close> and \<open>str_val\<close> are placeholders.
\<close>

definition sample_world ::
  "(rat request \<Rightarrow> post_result) \<Rightarrow> bool \<Rightarrow> (bytes \<Rightarrow> string + string) \<Rightarrow> rat world"
where
  "sample_world backend installed engine =
     \<lparr>requests_post = backend,
      str_exn = (\<lambda>e. ''<exception>''),
      str_val = (\<lambda>v. ''<value>''),
      b64decode = b64decode_cpython,
      TESSERACT_AVAILABLE = installed,
      image_to_string = engine\<rparr>"

definition streamed :: "int \<Rightarrow> line list \<Rightarrow> string option \<Rightarrow> post_result" where
  "streamed status ls brk =
     Responded \<lparr>status_code = status, http_error = ''HTTP error'',
                body_lines = ls, body_break = brk, body_json = Inl ''Extra data''\<rparr>"

definition answered :: "int \<Rightarrow> pyval \<Rightarrow> post_result" where
  "answered status data =
     Responded \<lparr>status_code = status, http_error = ''HTTP error'',
                body_lines = [], body_break = None, body_json = Inr data\<rparr>"

text \<open>A chat message with one image part holding the URL \<open>url\<close>.\<close>

definition image_message :: "string \<Rightarrow> pyval" where
  "image_message url =
     PDict [(''role'', PStr ''user''),
            (''content'', PList [PDict [(''type'', PStr ''image_url''),
                                        (''image_url'', PDict [(''url'', PStr url)])]])]"

section \<open>Shapes\<close>

text \<open>
  The shapes on which the extractors raise nothing: every message is a dict; in a part of
  type \<^verbatim>\<open>text\<close> the field \<^verbatim>\<open>text\<close> is a string or absent; in a part of type
  \<^verbatim>\<open>image_url\<close> the field \<^verbatim>\<open>image_url\<close> is a dict or absent, and its
  \<^verbatim>\<open>url\<close> a string or absent. Everything else is free.
\<close>

fun is_str :: "pyval \<Rightarrow> bool" where
  "is_str (PStr s) = True"
| "is_str v = False"

fun well_shaped_item :: "pyval \<Rightarrow> bool" where
  "well_shaped_item (PDict item) =
     (if dict_get item ''type'' PNone = PStr ''text'' then
        is_str (dict_get item ''text'' (PStr ''''))
      else if dict_get item ''type'' PNone = PStr ''image_url'' then
        (case dict_get item ''image_url'' (PDict []) of
           PDict image_url \<Rightarrow> is_str (dict_get image_url ''url'' (PStr ''''))
         | _ \<Rightarrow> False)
      else True)"
| "well_shaped_item v = True"

fun well_shaped_msg :: "pyval \<Rightarrow> bool" where
  "well_shaped_msg (PDict msg) =
     (case dict_get msg ''content'' (PStr '''') of
        PList content \<Rightarrow> list_all well_shaped_item content
      | _ \<Rightarrow> True)"
| "well_shaped_msg v = False"

text \<open>A line of the stream on which nothing is raised: empty, malformed JSON, or a JSON
  object.\<close>

fun quiet :: "line \<Rightarrow> bool" where
  "quiet Blank = True"
| "quiet BadJson = True"
| "quiet (Json (PDict d)) = True"
| "quiet l = False"

section \<open>Traces and joins\<close>

lemma fragments_map_Emit: "fragments (map Emit xs) = xs"
  by (induction xs) simp_all

lemma requests_map_Emit: "requests (map Emit xs) = []"
  by (induction xs) simp_all

lemma ocr_calls_map_Emit: "ocr_calls (map Emit xs) = []"
  by (induction xs) simp_all

lemma fragments_map_Ocr: "fragments (map Ocr xs) = []"
  by (induction xs) simp_all

lemma requests_map_Ocr: "requests (map Ocr xs) = []"
  by (induction xs) simp_all

lemma ocr_calls_map_Ocr: "ocr_calls (map Ocr xs) = xs"
  by (induction xs) simp_all

lemma fragments_append: "fragments (xs @ ys) = fragments xs @ fragments ys"
  by (induction xs rule: fragments.induct) simp_all

lemma requests_append: "requests (xs @ ys) = requests xs @ requests ys"
  by (induction xs rule: requests.induct) simp_all

lemma ocr_calls_append: "ocr_calls (xs @ ys) = ocr_calls xs @ ocr_calls ys"
  by (induction xs rule: ocr_calls.induct) simp_all

text \<open>\<open>join_str\<close> puts the separator in front of every element but the first.\<close>

lemma join_str_concat:
  "join_str sep xs = (case xs of [] \<Rightarrow> [] | x # ys \<Rightarrow> x @ concat (map (\<lambda>y. sep @ y) ys))"
  by (induction sep xs rule: join_str.induct) simp_all

section \<open>Failures of the streaming call\<close>

text \<open>When the line iterator raises after lines that raise nothing, the fragments of the
  lines come first and the error fragment last.\<close>

lemma stream_lines_break:
  "list_all quiet ls \<Longrightarrow>
   stream_lines w model ls (Some m) = stream_lines w model ls None @ [calling_error model m]"
proof (induction ls)
  case Nil
  then show ?case by simp
next
  case (Cons l ls)
  then show ?case
  proof (cases l)
    case (Json data)
    show ?thesis
    proof (cases data)
      case (PDict d)
      with Cons Json show ?thesis
        by (cases "map_of d ''response''") simp_all
    qed (use Cons Json in simp_all)
  qed simp_all
qed

text \<open>
  Claim C1, as the code has it, for \<^verbatim>\<open>_call_ollama_stream\<close> and for
  \<^verbatim>\<open>_call_ollama\<close> with \<^verbatim>\<open>stream=True\<close>. When \<^verbatim>\<open>requests.post\<close> raises,
  or the status is one that \<^verbatim>\<open>raise_for_status\<close> rejects (400 to 599), the call posts
  its one request and yields one fragment, the string
  \<^verbatim>\<open>Error calling <model>: <message>\<close>, and ends: no second request. When the
  response is accepted and the connection breaks while the body is read, after lines that
  are empty, malformed JSON or JSON objects, the fragments of those lines are yielded
  first and the same error string is the last fragment, again after one request.
\<close>

theorem C1_backend_error_fragment:
  fixes w :: "'f world" and v :: "'f valves" and vv :: "('f, 'z) valves_scheme"
  shows
  "(requests_post w
      \<lparr>req_url = OLLAMA_HOST v @ ''/api/generate'', req_model = REASONING_MODEL v,
       req_prompt = prompt, req_stream = True, req_images = None,
       req_temperature = TEMPERATURE v, http_stream = True, http_timeout = 300\<rparr> = res \<and>
    (res = PostRaises m \<or>
     (\<exists>r. res = Responded r \<and> 400 \<le> status_code r \<and> status_code r < 600 \<and> m = http_error r))
    \<longrightarrow>
    call_ollama_stream w v prompt =
      [Post \<lparr>req_url = OLLAMA_HOST v @ ''/api/generate'', req_model = REASONING_MODEL v,
             req_prompt = prompt, req_stream = True, req_images = None,
             req_temperature = TEMPERATURE v, http_stream = True, http_timeout = 300\<rparr>,
       Emit (PStr (''Error calling '' @ REASONING_MODEL v @ '': '' @ m))]) \<and>
   (requests_post w
      \<lparr>req_url = OLLAMA_HOST vv @ ''/api/generate'', req_model = model,
       req_prompt = prompt, req_stream = True, req_images = payload_images images,
       req_temperature = TEMPERATURE vv, http_stream = True, http_timeout = 300\<rparr> = res' \<and>
    (res' = PostRaises m \<or>
     (\<exists>r. res' = Responded r \<and> 400 \<le> status_code r \<and> status_code r < 600 \<and> m = http_error r))
    \<longrightarrow>
    call_ollama w vv model prompt images True =
      [Post \<lparr>req_url = OLLAMA_HOST vv @ ''/api/generate'', req_model = model,
             req_prompt = prompt, req_stream = True, req_images = payload_images images,
             req_temperature = TEMPERATURE vv, http_stream = True, http_timeout = 300\<rparr>,
       Emit (PStr (''Error calling '' @ model @ '': '' @ m))]) \<and>
   (requests_post w
      \<lparr>req_url = OLLAMA_HOST v @ ''/api/generate'', req_model = REASONING_MODEL v,
       req_prompt = prompt, req_stream = True, req_images = None,
       req_temperature = TEMPERATURE v, http_stream = True, http_timeout = 300\<rparr> = Responded r \<and>
    \<not> (400 \<le> status_code r \<and> status_code r < 600) \<and>
    list_all quiet (body_lines r) \<and> body_break r = Some m
    \<longrightarrow>
    call_ollama_stream w v prompt =
      Post \<lparr>req_url = OLLAMA_HOST v @ ''/api/generate'', req_model = REASONING_MODEL v,
            req_prompt = prompt, req_stream = True, req_images = None,
            req_temperature = TEMPERATURE v, http_stream = True, http_timeout = 300\<rparr>
      # map Emit (stream_lines w (REASONING_MODEL v) (body_lines r) None)
      @ [Emit (PStr (''Error calling '' @ REASONING_MODEL v @ '': '' @ m))]) \<and>
   (requests_post w
      \<lparr>req_url = OLLAMA_HOST vv @ ''/api/generate'', req_model = model,
       req_prompt = prompt, req_stream = True, req_images = payload_images images,
       req_temperature = TEMPERATURE vv, http_stream = True, http_timeout = 300\<rparr> = Responded r' \<and>
    \<not> (400 \<le> status_code r' \<and> status_code r' < 600) \<and>
    list_all quiet (body_lines r') \<and> body_break r' = Some m
    \<longrightarrow>
    call_ollama w vv model prompt images True =
      Post \<lparr>req_url = OLLAMA_HOST vv @ ''/api/generate'', req_model = model,
            req_prompt = prompt, req_stream = True, req_images = payload_images images,
            req_temperature = TEMPERATURE vv, http_stream = True, http_timeout = 300\<rparr>
      # map Emit (stream_lines w model (body_lines r') None)
      @ [Emit (PStr (''Error calling '' @ model @ '': '' @ m))])"
proof (intro conjI impI)
  assume "requests_post w
      \<lparr>req_url = OLLAMA_HOST v @ ''/api/generate'', req_model = REASONING_MODEL v,
       req_prompt = prompt, req_stream = True, req_images = None,
       req_temperature = TEMPERATURE v, http_stream = True, http_timeout = 300\<rparr> = res \<and>
    (res = PostRaises m \<or>
     (\<exists>r. res = Responded r \<and> 400 \<le> status_code r \<and> status_code r < 600 \<and> m = http_error r))"
  then show "call_ollama_stream w v prompt =
      [Post \<lparr>req_url = OLLAMA_HOST v @ ''/api/generate'', req_model = REASONING_MODEL v,
             req_prompt = prompt, req_stream = True, req_images = None,
             req_temperature = TEMPERATURE v, http_stream = True, http_timeout = 300\<rparr>,
       Emit (PStr (''Error calling '' @ REASONING_MODEL v @ '': '' @ m))]"
    by (auto simp: call_ollama_stream_def raise_for_status_def calling_error_def)
next
  assume "requests_post w
      \<lparr>req_url = OLLAMA_HOST vv @ ''/api/generate'', req_model = model,
       req_prompt = prompt, req_stream = True, req_images = payload_images images,
       req_temperature = TEMPERATURE vv, http_stream = True, http_timeout = 300\<rparr> = res' \<and>
    (res' = PostRaises m \<or>
     (\<exists>r. res' = Responded r \<and> 400 \<le> status_code r \<and> status_code r < 600 \<and> m = http_error r))"
  then show "call_ollama w vv model prompt images True =
      [Post \<lparr>req_url = OLLAMA_HOST vv @ ''/api/generate'', req_model = model,
             req_prompt = prompt, req_stream = True, req_images = payload_images images,
             req_temperature = TEMPERATURE vv, http_stream = True, http_timeout = 300\<rparr>,
       Emit (PStr (''Error calling '' @ model @ '': '' @ m))]"
    by (auto simp: call_ollama_def raise_for_status_def calling_error_def)
next
  assume h: "requests_post w
      \<lparr>req_url = OLLAMA_HOST v @ ''/api/generate'', req_model = REASONING_MODEL v,
       req_prompt = prompt, req_stream = True, req_images = None,
       req_temperature = TEMPERATURE v, http_stream = True, http_timeout = 300\<rparr> = Responded r \<and>
    \<not> (400 \<le> status_code r \<and> status_code r < 600) \<and>
    list_all quiet (body_lines r) \<and> body_break r = Some m"
  then have "raise_for_status r = None"
    by (simp add: raise_for_status_def)
  with h show "call_ollama_stream w v prompt =
      Post \<lparr>req_url = OLLAMA_HOST v @ ''/api/generate'', req_model = REASONING_MODEL v,
            req_prompt = prompt, req_stream = True, req_images = None,
            req_temperature = TEMPERATURE v, http_stream = True, http_timeout = 300\<rparr>
      # map Emit (stream_lines w (REASONING_MODEL v) (body_lines r) None)
      @ [Emit (PStr (''Error calling '' @ REASONING_MODEL v @ '': '' @ m))]"
    by (simp add: call_ollama_stream_def stream_lines_break calling_error_def)
next
  assume h: "requests_post w
      \<lparr>req_url = OLLAMA_HOST vv @ ''/api/generate'', req_model = model,
       req_prompt = prompt, req_stream = True, req_images = payload_images images,
       req_temperature = TEMPERATURE vv, http_stream = True, http_timeout = 300\<rparr> = Responded r' \<and>
    \<not> (400 \<le> status_code r' \<and> status_code r' < 600) \<and>
    list_all quiet (body_lines r') \<and> body_break r' = Some m"
  then have "raise_for_status r' = None"
    by (simp add: raise_for_status_def)
  with h show "call_ollama w vv model prompt images True =
      Post \<lparr>req_url = OLLAMA_HOST vv @ ''/api/generate'', req_model = model,
            req_prompt = prompt, req_stream = True, req_images = payload_images images,
            req_temperature = TEMPERATURE vv, http_stream = True, http_timeout = 300\<rparr>
      # map Emit (stream_lines w model (body_lines r') None)
      @ [Emit (PStr (''Error calling '' @ model @ '': '' @ m))]"
    by (simp add: call_ollama_def stream_lines_break calling_error_def)
qed

text \<open>
  Claim C1 as stated fails twice. A status outside 200 to 299 that
  \<^verbatim>\<open>raise_for_status\<close> accepts (here 300, with a body that is not JSON) is streamed
  like a success, and the sequence has no error string at all. And when the transport
  raises while the body is read, the error string is not the only element: the fragments
  already yielded come before it.
\<close>

theorem C1_counterexample:
  "fragments (call_ollama_stream
                (sample_world (\<lambda>r. streamed 300 [BadJson] None) True (\<lambda>b. Inr ''text''))
                default_valves ''Is this lease valid?'') = [] \<and>
   fragments (call_ollama_stream
                (sample_world
                   (\<lambda>r. streamed 200 [Json (PDict [(''response'', PStr ''Yes'')])]
                                     (Some ''Connection broken''))
                   True (\<lambda>b. Inr ''text''))
                default_valves ''Is this lease valid?'')
     = [PStr ''Yes'', PStr ''Error calling deepseek-r1:8b: Connection broken'']"
  by (simp add: call_ollama_stream_def sample_world_def streamed_def raise_for_status_def
      default_valves_def calling_error_def)

theorem C1_witness:
  "call_ollama_stream
     (sample_world (\<lambda>r. PostRaises ''Connection refused'') True (\<lambda>b. Inr ''text''))
     default_valves ''Is this lease valid?''
   = [Post \<lparr>req_url = ''http://host.docker.internal:11434/api/generate'',
             req_model = ''deepseek-r1:8b'', req_prompt = ''Is this lease valid?'',
             req_stream = True, req_images = None, req_temperature = 3 / 10,
             http_stream = True, http_timeout = 300\<rparr>,
      Emit (PStr ''Error calling deepseek-r1:8b: Connection refused'')] \<and>
   call_ollama
     (sample_world (\<lambda>r. streamed 503 [] None) True (\<lambda>b. Inr ''text''))
     default_vision_valves ''deepseek-r1:8b'' ''Is this lease valid?'' None True
   = [Post \<lparr>req_url = ''http://host.docker.internal:11434/api/generate'',
             req_model = ''deepseek-r1:8b'', req_prompt = ''Is this lease valid?'',
             req_stream = True, req_images = None, req_temperature = 3 / 10,
             http_stream = True, http_timeout = 300\<rparr>,
      Emit (PStr ''Error calling deepseek-r1:8b: HTTP error'')] \<and>
   call_ollama_stream
     (sample_world
        (\<lambda>r. streamed 200 [Json (PDict [(''response'', PStr ''Yes'')]), Blank]
                          (Some ''Connection broken''))
        True (\<lambda>b. Inr ''text''))
     default_valves ''Is this lease valid?''
   = [Post \<lparr>req_url = ''http://host.docker.internal:11434/api/generate'',
             req_model = ''deepseek-r1:8b'', req_prompt = ''Is this lease valid?'',
             req_stream = True, req_images = None, req_temperature = 3 / 10,
             http_stream = True, http_timeout = 300\<rparr>,
      Emit (PStr ''Yes''),
      Emit (PStr ''Error calling deepseek-r1:8b: Connection broken'')]"
proof -
  let ?w1 = "sample_world (\<lambda>r. PostRaises ''Connection refused'') True (\<lambda>b. Inr ''text'')"
  let ?w2 = "sample_world (\<lambda>r. streamed 503 [] None) True (\<lambda>b. Inr ''text'')"
  let ?w3 = "sample_world
        (\<lambda>r. streamed 200 [Json (PDict [(''response'', PStr ''Yes'')]), Blank]
                          (Some ''Connection broken''))
        True (\<lambda>b. Inr ''text'')"
  let ?r2 = "\<lparr>status_code = 503, http_error = ''HTTP error'', body_lines = [],
              body_break = None, body_json = Inl ''Extra data''\<rparr>"
  let ?r3 = "\<lparr>status_code = 200, http_error = ''HTTP error'',
              body_lines = [Json (PDict [(''response'', PStr ''Yes'')]), Blank],
              body_break = Some ''Connection broken'', body_json = Inl ''Extra data''\<rparr>"
  have "call_ollama_stream ?w1 default_valves ''Is this lease valid?''
   = [Post \<lparr>req_url = ''http://host.docker.internal:11434/api/generate'',
             req_model = ''deepseek-r1:8b'', req_prompt = ''Is this lease valid?'',
             req_stream = True, req_images = None, req_temperature = 3 / 10,
             http_stream = True, http_timeout = 300\<rparr>,
      Emit (PStr ''Error calling deepseek-r1:8b: Connection refused'')]"
    using C1_backend_error_fragment
            [of ?w1 default_valves "''Is this lease valid?''" "PostRaises ''Connection refused''"
                "''Connection refused''", THEN conjunct1]
    by (simp add: sample_world_def default_valves_def)
  moreover
  have "call_ollama ?w2 default_vision_valves ''deepseek-r1:8b'' ''Is this lease valid?'' None True
   = [Post \<lparr>req_url = ''http://host.docker.internal:11434/api/generate'',
             req_model = ''deepseek-r1:8b'', req_prompt = ''Is this lease valid?'',
             req_stream = True, req_images = None, req_temperature = 3 / 10,
             http_stream = True, http_timeout = 300\<rparr>,
      Emit (PStr ''Error calling deepseek-r1:8b: HTTP error'')]"
    using C1_backend_error_fragment
            [where w = ?w2 and vv = default_vision_valves and prompt = "''Is this lease valid?''"
               and res' = "Responded ?r2" and m = "''HTTP error''" and model = "''deepseek-r1:8b''"
               and images = None, THEN conjunct2, THEN conjunct1]
    by (simp add: sample_world_def default_vision_valves_def streamed_def payload_images_def)
  moreover
  have "call_ollama_stream ?w3 default_valves ''Is this lease valid?''
   = [Post \<lparr>req_url = ''http://host.docker.internal:11434/api/generate'',
             req_model = ''deepseek-r1:8b'', req_prompt = ''Is this lease valid?'',
             req_stream = True, req_images = None, req_temperature = 3 / 10,
             http_stream = True, http_timeout = 300\<rparr>,
      Emit (PStr ''Yes''),
      Emit (PStr ''Error calling deepseek-r1:8b: Connection broken'')]"
    using C1_backend_error_fragment
            [where w = ?w3 and v = default_valves and prompt = "''Is this lease valid?''"
               and r = ?r3 and m = "''Connection broken''",
             THEN conjunct2, THEN conjunct2, THEN conjunct1]
    by (simp add: sample_world_def default_valves_def streamed_def)
  ultimately show ?thesis by blast
qed

section \<open>Exceptions of the extractors\<close>

text \<open>On well-shaped messages every step of the two loops returns, and the text parts
  stay strings, so the final join returns too.\<close>

lemma strs_of_is_str: "list_all is_str vs \<Longrightarrow> \<exists>ss. strs_of vs = Inr ss"
proof (induction vs)
  case Nil
  then show ?case by simp
next
  case (Cons v vs)
  then show ?case by (cases v) auto
qed

lemma decode_data_url_errors:
  "decode_data_url dec url = Inl e \<Longrightarrow> e = IndexError \<or> e = ValueError"
  by (auto simp: decode_data_url_def py_index_def split: if_splits option.splits)

lemma data_url_payload_errors: "data_url_payload url = Inl e \<Longrightarrow> e = IndexError"
  by (auto simp: data_url_payload_def py_index_def split: if_splits)

lemma extract_item_well_shaped:
  assumes "well_shaped_item item" and "list_all is_str text_parts"
  shows "\<exists>images' text_parts'.
           extract_item dec (images, text_parts) item = Inr (images', text_parts') \<and>
           list_all is_str text_parts'"
proof (cases item)
  case (PDict d)
  show ?thesis
  proof (cases "decode_data_url dec
                  (case dict_get (case dict_get d ''image_url'' (PDict []) of PDict u \<Rightarrow> u | _ \<Rightarrow> [])
                          ''url'' (PStr '''') of PStr url \<Rightarrow> url | _ \<Rightarrow> [])")
    case (Inl e)
    with assms PDict decode_data_url_errors [OF Inl] show ?thesis
      by (auto split: pyval.splits if_splits)
  next
    case (Inr b)
    with assms PDict show ?thesis
      by (auto split: pyval.splits if_splits)
  qed
qed (use assms in auto)

lemma extract_items_well_shaped:
  "list_all well_shaped_item content \<Longrightarrow> list_all is_str text_parts \<Longrightarrow>
   \<exists>images' text_parts'.
     extract_items dec (images, text_parts) content = Inr (images', text_parts') \<and>
     list_all is_str text_parts'"
proof (induction content arbitrary: images text_parts)
  case Nil
  then show ?case by simp
next
  case (Cons item content)
  from Cons.prems obtain images' text_parts' where
    s: "extract_item dec (images, text_parts) item = Inr (images', text_parts')"
    and t: "list_all is_str text_parts'"
    using extract_item_well_shaped [of item text_parts dec images] by auto
  from Cons.IH [OF _ t, of images'] Cons.prems s show ?case by simp
qed

lemma extract_msg_well_shaped:
  assumes "well_shaped_msg msg" and "list_all is_str text_parts"
  shows "\<exists>images' text_parts'.
           extract_msg dec (images, text_parts) msg = Inr (images', text_parts') \<and>
           list_all is_str text_parts'"
proof (cases msg)
  case (PDict d)
  with assms show ?thesis
    using extract_items_well_shaped [of _ text_parts dec images]
    by (cases "dict_get d ''content'' (PStr '''')") auto
qed (use assms in auto)

lemma extract_msgs_well_shaped:
  "list_all well_shaped_msg messages \<Longrightarrow> list_all is_str text_parts \<Longrightarrow>
   \<exists>images' text_parts'.
     extract_msgs dec (images, text_parts) messages = Inr (images', text_parts') \<and>
     list_all is_str text_parts'"
proof (induction messages arbitrary: images text_parts)
  case Nil
  then show ?case by simp
next
  case (Cons msg messages)
  from Cons.prems obtain images' text_parts' where
    s: "extract_msg dec (images, text_parts) msg = Inr (images', text_parts')"
    and t: "list_all is_str text_parts'"
    using extract_msg_well_shaped [of msg text_parts dec images] by auto
  from Cons.IH [OF _ t, of images'] Cons.prems s show ?case by simp
qed

lemma extract_images_well_shaped:
  assumes "list_all well_shaped_msg messages"
  shows "\<exists>images text_content. extract_images dec messages = Inr (images, text_content)"
proof -
  from extract_msgs_well_shaped [OF assms, of "[]" dec "[]"]
  obtain images text_parts where
    s: "extract_msgs dec ([], []) messages = Inr (images, text_parts)"
    and t: "list_all is_str text_parts"
    by auto
  from strs_of_is_str [OF t] obtain ss where "strs_of text_parts = Inr ss" ..
  with s show ?thesis
    by (simp add: extract_images_def py_join_def)
qed

lemma has_images_item_well_shaped:
  assumes "well_shaped_item item" and "list_all is_str text_parts"
  shows "\<exists>images' text_parts'.
           has_images_item (images, text_parts) item = Inr (images', text_parts') \<and>
           list_all is_str text_parts'"
proof (cases item)
  case (PDict d)
  show ?thesis
  proof (cases "data_url_payload
                  (case dict_get (case dict_get d ''image_url'' (PDict []) of PDict u \<Rightarrow> u | _ \<Rightarrow> [])
                          ''url'' (PStr '''') of PStr url \<Rightarrow> url | _ \<Rightarrow> [])")
    case (Inl e)
    with assms PDict data_url_payload_errors [OF Inl] show ?thesis
      by (auto split: pyval.splits if_splits)
  next
    case (Inr b)
    with assms PDict show ?thesis
      by (auto split: pyval.splits if_splits)
  qed
qed (use assms in auto)

lemma has_images_items_well_shaped:
  "list_all well_shaped_item content \<Longrightarrow> list_all is_str text_parts \<Longrightarrow>
   \<exists>images' text_parts'.
     has_images_items (images, text_parts) content = Inr (images', text_parts') \<and>
     list_all is_str text_parts'"
proof (induction content arbitrary: images text_parts)
  case Nil
  then show ?case by simp
next
  case (Cons item content)
  from Cons.prems obtain images' text_parts' where
    s: "has_images_item (images, text_parts) item = Inr (images', text_parts')"
    and t: "list_all is_str text_parts'"
    using has_images_item_well_shaped [of item text_parts images] by auto
  from Cons.IH [OF _ t, of images'] Cons.prems s show ?case by simp
qed

lemma has_images_msg_well_shaped:
  assumes "well_shaped_msg msg" and "list_all is_str text_parts"
  shows "\<exists>images' text_parts'.
           has_images_msg (images, text_parts) msg = Inr (images', text_parts') \<and>
           list_all is_str text_parts'"
proof (cases msg)
  case (PDict d)
  with assms show ?thesis
    using has_images_items_well_shaped [of _ text_parts images]
    by (cases "dict_get d ''content'' (PStr '''')") auto
qed (use assms in auto)

lemma has_images_msgs_well_shaped:
  "list_all well_shaped_msg messages \<Longrightarrow> list_all is_str text_parts \<Longrightarrow>
   \<exists>images' text_parts'.
     has_images_msgs (images, text_parts) messages = Inr (images', text_parts') \<and>
     list_all is_str text_parts'"
proof (induction messages arbitrary: images text_parts)
  case Nil
  then show ?case by simp
next
  case (Cons msg messages)
  from Cons.prems obtain images' text_parts' where
    s: "has_images_msg (images, text_parts) msg = Inr (images', text_parts')"
    and t: "list_all is_str text_parts'"
    using has_images_msg_well_shaped [of msg text_parts images] by auto
  from Cons.IH [OF _ t, of images'] Cons.prems s show ?case by simp
qed

lemma has_images_well_shaped:
  assumes "list_all well_shaped_msg messages"
  shows "\<exists>has_image images text_content.
           has_images messages = Inr (has_image, images, text_content)"
proof -
  from has_images_msgs_well_shaped [OF assms, of "[]" "[]"]
  obtain images text_parts where
    s: "has_images_msgs ([], []) messages = Inr (images, text_parts)"
    and t: "list_all is_str text_parts"
    by auto
  from strs_of_is_str [OF t] obtain ss where "strs_of text_parts = Inr ss" ..
  with s show ?thesis
    by (simp add: has_images_def py_join_def)
qed

text \<open>
  Claim C2, as the code has it. On a list of well-shaped messages (each message a dict, as
  the signature declares; \<^verbatim>\<open>text\<close> a string or absent; \<^verbatim>\<open>image_url\<close> a dict
  or absent with \<^verbatim>\<open>url\<close> a string or absent) neither extractor raises and
  \<^verbatim>\<open>pipe\<close> of either variant lets no exception reach the caller, whatever the
  backend, the OCR engine and the decoder do. Parts of any other type, parts that are
  neither dict nor string, and contents that are neither string nor list are free: the
  code skips them.
\<close>

theorem C2_well_shaped_no_exception:
  assumes "list_all well_shaped_msg messages"
  shows "(\<exists>images text_content. extract_images dec messages = Inr (images, text_content)) \<and>
         (\<exists>has_image images text_content.
            has_images messages = Inr (has_image, images, text_content)) \<and>
         (\<exists>tr. alice_pipe w v user_message model_id messages body = Inr tr) \<and>
         (\<exists>tr. vision_pipe w vv user_message model_id messages body = Inr tr)"
proof -
  from extract_images_well_shaped [OF assms, of "b64decode w"]
  have "\<exists>tr. alice_pipe w v user_message model_id messages body = Inr tr"
    by (auto simp: alice_pipe_def)
  moreover from has_images_well_shaped [OF assms]
  have "\<exists>tr. vision_pipe w vv user_message model_id messages body = Inr tr"
    by (auto simp: vision_pipe_def)
  ultimately show ?thesis
    using extract_images_well_shaped [OF assms, of dec] has_images_well_shaped [OF assms]
    by blast
qed

text \<open>
  Claim C2 as stated fails on the shapes it names. A part whose \<^verbatim>\<open>image_url\<close> is a
  string makes \<^verbatim>\<open>.get("url", "")\<close> raise \<^verbatim>\<open>AttributeError\<close> in both
  extractors, no handler catches it, and \<^verbatim>\<open>pipe\<close> passes it to the caller; a message
  that is not a dict does the same at \<^verbatim>\<open>msg.get\<close>.
\<close>

theorem C2_counterexample:
  "extract_images b64decode_cpython
     [PDict [(''role'', PStr ''user''),
             (''content'', PList [PDict [(''type'', PStr ''image_url''),
                                         (''image_url'', PStr ''data:image/png;base64,QUJD'')]])]]
     = Inl (AttributeError (PStr ''data:image/png;base64,QUJD'') ''get'') \<and>
   has_images
     [PDict [(''role'', PStr ''user''),
             (''content'', PList [PDict [(''type'', PStr ''image_url''),
                                         (''image_url'', PStr ''data:image/png;base64,QUJD'')]])]]
     = Inl (AttributeError (PStr ''data:image/png;base64,QUJD'') ''get'') \<and>
   alice_pipe (sample_world (\<lambda>r. streamed 200 [] None) True (\<lambda>b. Inr ''text''))
     default_valves ''Which answer?'' ''alice''
     [PDict [(''role'', PStr ''user''),
             (''content'', PList [PDict [(''type'', PStr ''image_url''),
                                         (''image_url'', PStr ''data:image/png;base64,QUJD'')]])]]
     PNone
     = Inl (AttributeError (PStr ''data:image/png;base64,QUJD'') ''get'') \<and>
   vision_pipe (sample_world (\<lambda>r. streamed 200 [] None) True (\<lambda>b. Inr ''text''))
     default_vision_valves ''Which answer?'' ''vision''
     [PDict [(''role'', PStr ''user''),
             (''content'', PList [PDict [(''type'', PStr ''image_url''),
                                         (''image_url'', PStr ''data:image/png;base64,QUJD'')]])]]
     PNone
     = Inl (AttributeError (PStr ''data:image/png;base64,QUJD'') ''get'') \<and>
   extract_images b64decode_cpython [PStr ''Which answer?'']
     = Inl (AttributeError (PStr ''Which answer?'') ''get'') \<and>
   has_images [PStr ''Which answer?'']
     = Inl (AttributeError (PStr ''Which answer?'') ''get'')"
  by (simp add: extract_images_def has_images_def alice_pipe_def vision_pipe_def
      sample_world_def dict_get_def)

theorem C2_witness:
  "(\<exists>images text_content.
      extract_images b64decode_cpython
        [PDict [(''role'', PStr ''user''),
                (''content'', PList [PDict [(''type'', PStr ''text''), (''text'', PStr ''Which answer?'')],
                                     PDict [(''type'', PStr ''video'')],
                                     PInt 7,
                                     PDict [(''type'', PStr ''image_url''),
                                            (''image_url'', PDict [(''url'', PStr ''data:image/png;base64,*'')])]])],
         PDict [(''role'', PStr ''system''), (''content'', PNone)]]
      = Inr (images, text_content)) \<and>
   (\<exists>tr. vision_pipe (sample_world (\<lambda>r. streamed 200 [] None) True (\<lambda>b. Inr ''text''))
           default_vision_valves ''Which answer?'' ''vision''
        [PDict [(''role'', PStr ''user''),
                (''content'', PList [PDict [(''type'', PStr ''text''), (''text'', PStr ''Which answer?'')],
                                     PDict [(''type'', PStr ''video'')],
                                     PInt 7,
                                     PDict [(''type'', PStr ''image_url''),
                                            (''image_url'', PDict [(''url'', PStr ''data:image/png;base64,*'')])]])],
         PDict [(''role'', PStr ''system''), (''content'', PNone)]]
        PNone = Inr tr)"
proof -
  let ?ms = "[PDict [(''role'', PStr ''user''),
                (''content'', PList [PDict [(''type'', PStr ''text''), (''text'', PStr ''Which answer?'')],
                                     PDict [(''type'', PStr ''video'')],
                                     PInt 7,
                                     PDict [(''type'', PStr ''image_url''),
                                            (''image_url'', PDict [(''url'', PStr ''data:image/png;base64,*'')])]])],
         PDict [(''role'', PStr ''system''), (''content'', PNone)]]"
  have "list_all well_shaped_msg ?ms"
    by (simp add: dict_get_def)
  from C2_well_shaped_no_exception [OF this] show ?thesis
    by blast
qed

section \<open>Data URLs\<close>

text \<open>What the two splits return, and how a part that leaves the loop state unchanged
  disappears from the result.\<close>

lemma py_split_no_sep: "sep \<notin> set s \<Longrightarrow> py_split sep n cur s = [cur @ s]"
  by (induction s arbitrary: cur) auto

lemma py_split_zero: "py_split sep 0 cur s = [cur @ s]"
  by (induction s arbitrary: cur) simp_all

lemma py_split_once:
  "sep \<notin> set a \<Longrightarrow> py_split sep 1 cur (a @ sep # b) = [cur @ a, b]"
  by (induction a arbitrary: cur) (auto simp: py_split_zero)

lemma py_split_nonempty: "py_split sep n cur s \<noteq> []"
  by (induction s arbitrary: n cur) simp_all

lemma py_split_head:
  "n < 0 \<Longrightarrow> hd (py_split sep n cur s) = cur @ takeWhile (\<lambda>c. c \<noteq> sep) s"
  by (induction s arbitrary: cur) simp_all

lemma py_split_every:
  "n < 0 \<Longrightarrow> sep \<notin> set a \<Longrightarrow>
   py_split sep n cur (a @ sep # b) = (cur @ a) # py_split sep (n - 1) [] b"
  by (induction a arbitrary: cur) auto

lemma decode_data_url_no_comma:
  "CHR '','' \<notin> set url \<Longrightarrow> decode_data_url dec url = Inl IndexError"
  by (simp add: decode_data_url_def py_split_no_sep py_index_def)

lemma decode_data_url_after_comma:
  "CHR '','' \<notin> set a \<Longrightarrow>
   decode_data_url dec (a @ CHR '','' # b) =
     (case dec b of None \<Rightarrow> Inl ValueError | Some image_bytes \<Rightarrow> Inr image_bytes)"
  by (simp add: decode_data_url_def py_split_once py_index_def)

lemma data_url_payload_no_comma:
  "CHR '','' \<notin> set url \<Longrightarrow> data_url_payload url = Inl IndexError"
  by (simp add: data_url_payload_def py_split_no_sep py_index_def)

lemma data_url_payload_piece:
  assumes "CHR '','' \<notin> set a"
  shows "data_url_payload (a @ CHR '','' # b) = Inr (takeWhile (\<lambda>c. c \<noteq> CHR '','') b)"
proof -
  have "py_split CHR '','' (- 1 - 1) [] b \<noteq> []"
    by (rule py_split_nonempty)
  moreover have "hd (py_split CHR '','' (- 1 - 1) [] b) = takeWhile (\<lambda>c. c \<noteq> CHR '','') b"
    by (simp add: py_split_head)
  ultimately show ?thesis
    using assms
    by (cases "py_split CHR '','' (- 1 - 1) [] b")
       (simp_all add: data_url_payload_def py_split_every py_index_def)
qed

lemma extract_items_skip:
  assumes "\<And>acc. extract_item dec acc bad = Inr acc"
  shows "extract_items dec acc (before @ bad # after) = extract_items dec acc (before @ after)"
  by (induction before arbitrary: acc) (simp_all add: assms split: sum.splits)

lemma has_images_items_skip:
  assumes "\<And>acc. has_images_item acc bad = Inr acc"
  shows "has_images_items acc (before @ bad # after) = has_images_items acc (before @ after)"
  by (induction before arbitrary: acc) (simp_all add: assms split: sum.splits)

lemma extract_msgs_cong:
  assumes "\<And>acc. extract_msg dec acc m = extract_msg dec acc m'"
  shows "extract_msgs dec acc (pre @ m # post) = extract_msgs dec acc (pre @ m' # post)"
  by (induction pre arbitrary: acc) (simp_all add: assms split: sum.splits)

lemma has_images_msgs_cong:
  assumes "\<And>acc. has_images_msg acc m = has_images_msg acc m'"
  shows "has_images_msgs acc (pre @ m # post) = has_images_msgs acc (pre @ m' # post)"
  by (induction pre arbitrary: acc) (simp_all add: assms split: sum.splits)

text \<open>
  Claim C3, as the code has it. Take an image part whose URL starts with
  \<^verbatim>\<open>data:image\<close>, inside the content list of one message, and compare with the same
  messages without that part. In Alice Paralegal, when the URL has no comma or the text
  after its first comma does not decode, the result of the extractor (images, text, or the
  exception another part raises) is the same as without the part. In Legal Vision this
  holds when the URL has no comma; nothing is decoded there, so when the URL has exactly
  one comma the text after it is kept as an image entry, unchanged, whether it is valid
  base64 or not. (A URL with a second comma is the subject of claim C4.)
\<close>

theorem C3_malformed_image_dropped:
  assumes "dict_get item ''type'' PNone = PStr ''image_url''"
    and "dict_get item ''image_url'' (PDict []) = PDict image_url"
    and "dict_get image_url ''url'' (PStr '''') = PStr url"
    and "startswith url ''data:image''"
    and "dict_get msg ''content'' (PStr '''') = PList (before @ PDict item # after)"
    and "dict_get msg' ''content'' (PStr '''') = PList (before @ after)"
  shows "(CHR '','' \<notin> set url \<or>
          (\<exists>a b. url = a @ CHR '','' # b \<and> CHR '','' \<notin> set a \<and> dec b = None) \<longrightarrow>
          extract_images dec (pre @ PDict msg # post) = extract_images dec (pre @ PDict msg' # post)) \<and>
         (CHR '','' \<notin> set url \<longrightarrow>
          has_images (pre @ PDict msg # post) = has_images (pre @ PDict msg' # post)) \<and>
         (\<forall>a b. url = a @ CHR '','' # b \<and> CHR '','' \<notin> set a \<and> CHR '','' \<notin> set b \<longrightarrow>
            has_images_item (images, text_parts) (PDict item) = Inr (images @ [b], text_parts))"
proof (intro conjI impI allI)
  assume bad: "CHR '','' \<notin> set url \<or>
          (\<exists>a b. url = a @ CHR '','' # b \<and> CHR '','' \<notin> set a \<and> dec b = None)"
  then have "decode_data_url dec url = Inl IndexError \<or> decode_data_url dec url = Inl ValueError"
    by (auto simp: decode_data_url_no_comma decode_data_url_after_comma)
  with assms(1-4) have "\<And>acc. extract_item dec acc (PDict item) = Inr acc"
    by (auto simp: split_paired_all)
  then have "\<And>acc. extract_items dec acc (before @ PDict item # after)
                     = extract_items dec acc (before @ after)"
    by (rule extract_items_skip)
  with assms(5,6) have "\<And>acc. extract_msg dec acc (PDict msg) = extract_msg dec acc (PDict msg')"
    by (simp add: split_paired_all)
  then have "extract_msgs dec ([], []) (pre @ PDict msg # post)
               = extract_msgs dec ([], []) (pre @ PDict msg' # post)"
    by (rule extract_msgs_cong)
  then show "extract_images dec (pre @ PDict msg # post) = extract_images dec (pre @ PDict msg' # post)"
    by (simp add: extract_images_def)
next
  assume "CHR '','' \<notin> set url"
  then have "data_url_payload url = Inl IndexError"
    by (rule data_url_payload_no_comma)
  with assms(1-4) have "\<And>acc. has_images_item acc (PDict item) = Inr acc"
    by (auto simp: split_paired_all)
  then have "\<And>acc. has_images_items acc (before @ PDict item # after)
                     = has_images_items acc (before @ after)"
    by (rule has_images_items_skip)
  with assms(5,6) have "\<And>acc. has_images_msg acc (PDict msg) = has_images_msg acc (PDict msg')"
    by (simp add: split_paired_all)
  then have "has_images_msgs ([], []) (pre @ PDict msg # post)
               = has_images_msgs ([], []) (pre @ PDict msg' # post)"
    by (rule has_images_msgs_cong)
  then show "has_images (pre @ PDict msg # post) = has_images (pre @ PDict msg' # post)"
    by (simp add: has_images_def)
next
  fix a b
  assume "url = a @ CHR '','' # b \<and> CHR '','' \<notin> set a \<and> CHR '','' \<notin> set b"
  then have "data_url_payload url = Inr b"
    by (auto simp: data_url_payload_piece)
  with assms(1-4) show "has_images_item (images, text_parts) (PDict item)
                          = Inr (images @ [b], text_parts)"
    by simp
qed

text \<open>
  Claim C3 as stated fails in Legal Vision for a payload that does not decode: the one
  character \<^verbatim>\<open>A\<close> is refused by the decoder, and \<^verbatim>\<open>_has_images\<close> keeps it as an
  image, where without the part there is none.
\<close>

theorem C3_counterexample:
  "b64decode_cpython ''A'' = None \<and>
   has_images
     [PDict [(''role'', PStr ''user''),
             (''content'', PList [PDict [(''type'', PStr ''image_url''),
                                         (''image_url'', PDict [(''url'', PStr ''data:image/png;base64,A'')])]])]]
     = Inr (True, [''A''], '''') \<and>
   has_images [PDict [(''role'', PStr ''user''), (''content'', PList [])]]
     = Inr (False, [], '''')"
  by (simp add: has_images_def dict_get_def startswith_def data_url_payload_def py_index_def
      py_join_def b64decode_cpython_def b64_value_def)

theorem C3_witness:
  "extract_images b64decode_cpython
     [PDict [(''content'',
              PList [PStr ''see'',
                     PDict [(''type'', PStr ''image_url''),
                            (''image_url'', PDict [(''url'', PStr ''data:image/png;base64,A'')])],
                     PDict [(''type'', PStr ''image_url''),
                            (''image_url'', PDict [(''url'', PStr ''data:image/png;base64,QUJD'')])]])]]
   = extract_images b64decode_cpython
     [PDict [(''content'',
              PList [PStr ''see'',
                     PDict [(''type'', PStr ''image_url''),
                            (''image_url'', PDict [(''url'', PStr ''data:image/png;base64,QUJD'')])]])]] \<and>
   has_images
     [PDict [(''content'',
              PList [PStr ''see'',
                     PDict [(''type'', PStr ''image_url''),
                            (''image_url'', PDict [(''url'', PStr ''data:image/png;base64'')])],
                     PDict [(''type'', PStr ''image_url''),
                            (''image_url'', PDict [(''url'', PStr ''data:image/png;base64,QUJD'')])]])]]
   = has_images
     [PDict [(''content'',
              PList [PStr ''see'',
                     PDict [(''type'', PStr ''image_url''),
                            (''image_url'', PDict [(''url'', PStr ''data:image/png;base64,QUJD'')])]])]]"
proof -
  let ?good = "PDict [(''type'', PStr ''image_url''),
                      (''image_url'', PDict [(''url'', PStr ''data:image/png;base64,QUJD'')])]"
  let ?msg' = "[(''content'', PList [PStr ''see'', ?good])]"
  have bad: "CHR '','' \<notin> set ''data:image/png;base64,A'' \<or>
             (\<exists>a b. ''data:image/png;base64,A'' = a @ CHR '','' # b \<and> CHR '','' \<notin> set a \<and>
                    b64decode_cpython b = None)"
  proof -
    have "''data:image/png;base64,A'' = ''data:image/png;base64'' @ CHR '','' # ''A''"
      by simp
    moreover have "CHR '','' \<notin> set ''data:image/png;base64''"
      by simp
    moreover have "b64decode_cpython ''A'' = None"
      by (simp add: b64decode_cpython_def b64_value_def)
    ultimately show ?thesis by blast
  qed
  have "extract_images b64decode_cpython
          ([] @ PDict [(''content'',
              PList ([PStr ''see''] @
                     PDict [(''type'', PStr ''image_url''),
                            (''image_url'', PDict [(''url'', PStr ''data:image/png;base64,A'')])]
                     # [?good]))] # [])
        = extract_images b64decode_cpython ([] @ PDict ?msg' # [])"
    by (rule C3_malformed_image_dropped
          [where url = "''data:image/png;base64,A''"
             and image_url = "[(''url'', PStr ''data:image/png;base64,A'')]"
             and before = "[PStr ''see'']" and after = "[?good]" and dec = b64decode_cpython,
           THEN conjunct1, THEN mp, OF _ _ _ _ _ _ bad])
       (simp_all add: dict_get_def startswith_def)
  moreover
  have "has_images
          ([] @ PDict [(''content'',
              PList ([PStr ''see''] @
                     PDict [(''type'', PStr ''image_url''),
                            (''image_url'', PDict [(''url'', PStr ''data:image/png;base64'')])]
                     # [?good]))] # [])
        = has_images ([] @ PDict ?msg' # [])"
    by (rule C3_malformed_image_dropped
          [where url = "''data:image/png;base64''"
             and image_url = "[(''url'', PStr ''data:image/png;base64'')]"
             and before = "[PStr ''see'']" and after = "[?good]",
           THEN conjunct2, THEN conjunct1, THEN mp])
       (simp_all add: dict_get_def startswith_def)
  ultimately show ?thesis by simp
qed

section \<open>The payload of a data URL\<close>

text \<open>
  A part whose URL does not start with \<^verbatim>\<open>data:image\<close> contributes no image, in both
  variants.
\<close>

lemma extract_item_other_scheme:
  assumes "dict_get item ''type'' PNone = PStr ''image_url''"
    and "dict_get item ''image_url'' (PDict []) = PDict image_url"
    and "dict_get image_url ''url'' (PStr '''') = PStr url"
    and "\<not> startswith url ''data:image''"
  shows "extract_item dec (images, text_parts) (PDict item) = Inr (images, text_parts)"
    and "has_images_item (base64_images, text_parts) (PDict item) = Inr (base64_images, text_parts)"
  using assms by simp_all

text \<open>
  The payload on a URL \<open>a @ '','' # b\<close> whose first comma is the one shown: Alice Paralegal
  decodes all of \<open>b\<close>; Legal Vision keeps \<open>b\<close> up to its next comma.
\<close>

lemma extract_item_payload:
  assumes "dict_get item ''type'' PNone = PStr ''image_url''"
    and "dict_get item ''image_url'' (PDict []) = PDict image_url"
    and "dict_get image_url ''url'' (PStr '''') = PStr (a @ CHR '','' # b)"
    and "startswith (a @ CHR '','' # b) ''data:image''"
    and "CHR '','' \<notin> set a"
  shows "extract_item dec (images, text_parts) (PDict item) =
           (case dec b of None \<Rightarrow> Inr (images, text_parts)
            | Some image_bytes \<Rightarrow> Inr (images @ [image_bytes], text_parts))"
    and "has_images_item (base64_images, text_parts) (PDict item) =
           Inr (base64_images @ [takeWhile (\<lambda>c. c \<noteq> CHR '','') b], text_parts)"
  using assms
  by (auto simp: decode_data_url_after_comma data_url_payload_piece split: option.splits)

text \<open>
  Claim C4 at the URL \<^verbatim>\<open>data:image/png;base64,QUJD,REVG\<close>. The text after the first
  comma is \<^verbatim>\<open>QUJD,REVG\<close>. Alice Paralegal, which splits with \<^verbatim>\<open>maxsplit\<close> 1,
  decodes all of it (the six bytes of \<^verbatim>\<open>ABCDEF\<close>); Legal Vision, which splits at
  every comma, takes \<^verbatim>\<open>QUJD\<close> only and loses the rest.
\<close>

theorem C4_vision_payload_cut:
  "has_images [image_message ''data:image/png;base64,QUJD,REVG'']
     = Inr (True, [''QUJD''], '''') \<and>
   extract_images b64decode_cpython [image_message ''data:image/png;base64,QUJD,REVG'']
     = Inr ([[65, 66, 67, 68, 69, 70]], '''')"
  by (simp add: image_message_def has_images_def extract_images_def dict_get_def startswith_def
      data_url_payload_def decode_data_url_def py_index_def py_join_def b64decode_cpython_def
      b64_value_def)

section \<open>Messages with string content\<close>

lemma strs_of_map_PStr: "strs_of (map PStr ss) = Inr ss"
  by (induction ss) simp_all

lemma extract_msgs_strings:
  "list_all2 (\<lambda>m s. \<exists>d. m = PDict d \<and> map_of d ''content'' = Some (PStr s)) messages texts \<Longrightarrow>
   extract_msgs dec (images, text_parts) messages = Inr (images, text_parts @ map PStr texts)"
  by (induction messages texts arbitrary: text_parts rule: list_all2_induct)
     (auto simp: dict_get_def)

lemma has_images_msgs_strings:
  "list_all2 (\<lambda>m s. \<exists>d. m = PDict d \<and> map_of d ''content'' = Some (PStr s)) messages texts \<Longrightarrow>
   has_images_msgs (images, text_parts) messages = Inr (images, text_parts @ map PStr texts)"
  by (induction messages texts arbitrary: text_parts rule: list_all2_induct)
     (auto simp: dict_get_def)

text \<open>
  Claim C5. When every message is a dict whose \<^verbatim>\<open>content\<close> is a string, \<open>texts\<close>
  being these strings in message order, both extractors return no image and the strings
  joined by single spaces, in that order: the first string, then every further string
  with one space in front of it (and \<^verbatim>\<open>_has_images\<close> the flag \<open>False\<close>).
\<close>

theorem C5_string_messages:
  assumes "list_all2 (\<lambda>m s. \<exists>d. m = PDict d \<and> map_of d ''content'' = Some (PStr s)) messages texts"
  shows "extract_images dec messages =
           Inr ([], case texts of [] \<Rightarrow> [] | t # ts \<Rightarrow> t @ concat (map (\<lambda>s. CHR '' '' # s) ts)) \<and>
         has_images messages =
           Inr (False, [], case texts of [] \<Rightarrow> [] | t # ts \<Rightarrow> t @ concat (map (\<lambda>s. CHR '' '' # s) ts))"
proof -
  have "join_str '' '' texts =
          (case texts of [] \<Rightarrow> [] | t # ts \<Rightarrow> t @ concat (map (\<lambda>s. CHR '' '' # s) ts))"
  proof -
    have "(\<lambda>s. [CHR 0x20] @ s) = (\<lambda>s. CHR 0x20 # s)"
      by (rule ext) simp
    with join_str_concat [of "[CHR 0x20]" texts] show ?thesis
      by (simp only:)
  qed
  with assms show ?thesis
    by (simp add: extract_images_def has_images_def extract_msgs_strings has_images_msgs_strings
        py_join_def strs_of_map_PStr)
qed

theorem C5_witness:
  "extract_images b64decode_cpython
     [PDict [(''role'', PStr ''user''), (''content'', PStr ''What is the rule'')],
      PDict [(''content'', PStr ''against perpetuities?'')]]
     = Inr ([], ''What is the rule against perpetuities?'') \<and>
   has_images
     [PDict [(''role'', PStr ''user''), (''content'', PStr ''What is the rule'')],
      PDict [(''content'', PStr ''against perpetuities?'')]]
     = Inr (False, [], ''What is the rule against perpetuities?'')"
  using C5_string_messages
    [of "[PDict [(''role'', PStr ''user''), (''content'', PStr ''What is the rule'')],
          PDict [(''content'', PStr ''against perpetuities?'')]]"
        "[''What is the rule'', ''against perpetuities?'']" b64decode_cpython]
  by simp

section \<open>The dispatchers without images\<close>

text \<open>Either backend call posts one request and then only yields.\<close>

lemma call_ollama_stream_shape:
  "call_ollama_stream w v prompt =
     Post \<lparr>req_url = OLLAMA_HOST v @ ''/api/generate'', req_model = REASONING_MODEL v,
           req_prompt = prompt, req_stream = True, req_images = None,
           req_temperature = TEMPERATURE v, http_stream = True, http_timeout = 300\<rparr>
     # map Emit (fragments (call_ollama_stream w v prompt))"
  by (simp add: call_ollama_stream_def Let_def fragments_map_Emit)

lemma call_ollama_shape:
  "call_ollama w v model prompt images stream =
     Post \<lparr>req_url = OLLAMA_HOST v @ ''/api/generate'', req_model = model,
           req_prompt = prompt, req_stream = stream, req_images = payload_images images,
           req_temperature = TEMPERATURE v, http_stream = stream, http_timeout = 300\<rparr>
     # map Emit (fragments (call_ollama w v model prompt images stream))"
  by (simp add: call_ollama_def Let_def fragments_map_Emit)

lemma ocr_calls_call_ollama_stream: "ocr_calls (call_ollama_stream w v prompt) = []"
  by (simp add: call_ollama_stream_def Let_def ocr_calls_map_Emit)

lemma ocr_calls_call_ollama: "ocr_calls (call_ollama w v model prompt images stream) = []"
  by (simp add: call_ollama_def Let_def ocr_calls_map_Emit)

lemma has_images_flag:
  "has_images messages = Inr (has_image, images, text_content) \<Longrightarrow> has_image = (images \<noteq> [])"
  by (auto simp: has_images_def split: sum.splits prod.splits)

text \<open>
  Claim C6. When the extractor finds no image, the whole run of \<^verbatim>\<open>pipe\<close> is the
  streaming call to the reasoning model with the bare-question prompt, which is the fixed
  template around the user's message and nothing else: one request, followed only by the
  fragments of that call. There is no call of \<^verbatim>\<open>_ocr_image\<close>, no request to the
  vision model (the only request names the reasoning model and carries no image) and no
  header fragment.
\<close>

theorem C6_no_images_bare_prompt:
  "(extract_images (b64decode w) messages = Inr ([], text_content) \<longrightarrow>
      (let prompt =
             ''You are a legal reasoning assistant for Texas bar exam preparation.'' @ LF @ LF @
             ''Question: '' @ user_message @ LF @ LF @
             ''Provide thorough legal analysis:'' @ LF @
             ''1. Identify the legal issue(s)'' @ LF @
             ''2. State the applicable rule(s) of law  '' @ LF @
             ''3. Apply the rule to the facts'' @ LF @
             ''4. Reach a conclusion''
       in alice_pipe w v user_message model_id messages body
            = Inr (call_ollama_stream w v prompt) \<and>
          ocr_calls (call_ollama_stream w v prompt) = [] \<and>
          call_ollama_stream w v prompt =
            Post \<lparr>req_url = OLLAMA_HOST v @ ''/api/generate'', req_model = REASONING_MODEL v,
                  req_prompt = prompt, req_stream = True, req_images = None,
                  req_temperature = TEMPERATURE v, http_stream = True, http_timeout = 300\<rparr>
            # map Emit (fragments (call_ollama_stream w v prompt)))) \<and>
   (has_images messages = Inr (has_image, [], text_content) \<longrightarrow>
      (let prompt =
             ''You are a legal reasoning assistant helping with Texas bar exam preparation.'' @
             LF @ LF @
             ''Question: '' @ user_message @ LF @ LF @
             ''Provide thorough legal analysis. If this is a legal question:'' @ LF @
             ''1. Identify the legal issue(s)'' @ LF @
             ''2. State the applicable rule(s) of law  '' @ LF @
             ''3. Apply the rule to the facts'' @ LF @
             ''4. Reach a conclusion''
       in vision_pipe w vv user_message model_id messages body
            = Inr (call_ollama w vv (REASONING_MODEL vv) prompt None True) \<and>
          ocr_calls (call_ollama w vv (REASONING_MODEL vv) prompt None True) = [] \<and>
          call_ollama w vv (REASONING_MODEL vv) prompt None True =
            Post \<lparr>req_url = OLLAMA_HOST vv @ ''/api/generate'', req_model = REASONING_MODEL vv,
                  req_prompt = prompt, req_stream = True, req_images = None,
                  req_temperature = TEMPERATURE vv, http_stream = True, http_timeout = 300\<rparr>
            # map Emit (fragments (call_ollama w vv (REASONING_MODEL vv) prompt None True))))"
  (is "(?A \<longrightarrow> Let ?P ?F) \<and> (?B \<longrightarrow> Let ?Q ?G)")
proof -
  have p: "alice_bare_prompt user_message = ?P"
    by (simp add: alice_bare_prompt_def)
  have q: "vision_bare_prompt user_message = ?Q"
    by (simp add: vision_bare_prompt_def)
  have alice: "?F ?P" if a: ?A
  proof -
    from a have "alice_pipe w v user_message model_id messages body
                   = Inr (call_ollama_stream w v (alice_bare_prompt user_message))"
      by (simp add: alice_pipe_def)
    then have "alice_pipe w v user_message model_id messages body
                 = Inr (call_ollama_stream w v ?P)"
      by (simp only: p)
    with ocr_calls_call_ollama_stream [of w v ?P] call_ollama_stream_shape [of w v ?P]
    show ?thesis by blast
  qed
  have vision: "?G ?Q" if b: ?B
  proof -
    from b have "\<not> has_image"
      using has_images_flag by blast
    with b have "vision_pipe w vv user_message model_id messages body
                   = Inr (call_ollama w vv (REASONING_MODEL vv)
                            (vision_bare_prompt user_message) None True)"
      by (simp add: vision_pipe_def)
    then have "vision_pipe w vv user_message model_id messages body
                 = Inr (call_ollama w vv (REASONING_MODEL vv) ?Q None True)"
      by (simp only: q)
    moreover
    from call_ollama_shape [of w vv "REASONING_MODEL vv" ?Q None True]
    have "call_ollama w vv (REASONING_MODEL vv) ?Q None True =
            Post \<lparr>req_url = OLLAMA_HOST vv @ ''/api/generate'', req_model = REASONING_MODEL vv,
                  req_prompt = ?Q, req_stream = True, req_images = None,
                  req_temperature = TEMPERATURE vv, http_stream = True, http_timeout = 300\<rparr>
            # map Emit (fragments (call_ollama w vv (REASONING_MODEL vv) ?Q None True))"
      by (simp only: payload_images_def option.case)
    ultimately show ?thesis
      using ocr_calls_call_ollama [of w vv "REASONING_MODEL vv" ?Q None True] by blast
  qed
  from alice vision show ?thesis
    unfolding Let_def by blast
qed

theorem C6_witness:
  "alice_pipe
     (sample_world (\<lambda>r. streamed 200 [Json (PDict [(''response'', PStr ''No interest'')]),
                                       Json (PDict [(''response'', PStr '' is good'')])] None)
                   True (\<lambda>b. Inr ''text''))
     default_valves ''What is the rule against perpetuities?'' ''alice''
     [PDict [(''content'', PStr ''What is the rule against perpetuities?'')]] PNone
   = Inr [Post \<lparr>req_url = ''http://host.docker.internal:11434/api/generate'',
                 req_model = ''deepseek-r1:8b'',
                 req_prompt =
                   ''You are a legal reasoning assistant for Texas bar exam preparation.'' @
                   LF @ LF @
                   ''Question: What is the rule against perpetuities?'' @ LF @ LF @
                   ''Provide thorough legal analysis:'' @ LF @
                   ''1. Identify the legal issue(s)'' @ LF @
                   ''2. State the applicable rule(s) of law  '' @ LF @
                   ''3. Apply the rule to the facts'' @ LF @
                   ''4. Reach a conclusion'',
                 req_stream = True, req_images = None, req_temperature = 3 / 10,
                 http_stream = True, http_timeout = 300\<rparr>,
          Emit (PStr ''No interest''), Emit (PStr '' is good'')] \<and>
   vision_pipe
     (sample_world (\<lambda>r. streamed 200 [Json (PDict [(''response'', PStr ''No interest'')]),
                                       Json (PDict [(''response'', PStr '' is good'')])] None)
                   True (\<lambda>b. Inr ''text''))
     default_vision_valves ''What is the rule against perpetuities?'' ''vision''
     [PDict [(''content'', PStr ''What is the rule against perpetuities?'')]] PNone
   = Inr [Post \<lparr>req_url = ''http://host.docker.internal:11434/api/generate'',
                 req_model = ''deepseek-r1:8b'',
                 req_prompt =
                   ''You are a legal reasoning assistant helping with Texas bar exam preparation.'' @
                   LF @ LF @
                   ''Question: What is the rule against perpetuities?'' @ LF @ LF @
                   ''Provide thorough legal analysis. If this is a legal question:'' @ LF @
                   ''1. Identify the legal issue(s)'' @ LF @
                   ''2. State the applicable rule(s) of law  '' @ LF @
                   ''3. Apply the rule to the facts'' @ LF @
                   ''4. Reach a conclusion'',
                 req_stream = True, req_images = None, req_temperature = 3 / 10,
                 http_stream = True, http_timeout = 300\<rparr>,
          Emit (PStr ''No interest''), Emit (PStr '' is good'')]"
proof -
  let ?w = "sample_world (\<lambda>r. streamed 200 [Json (PDict [(''response'', PStr ''No interest'')]),
                                       Json (PDict [(''response'', PStr '' is good'')])] None)
                   True (\<lambda>b. Inr ''text'')"
  let ?ms = "[PDict [(''content'', PStr ''What is the rule against perpetuities?'')]]"
  let ?P = "''You are a legal reasoning assistant for Texas bar exam preparation.'' @ LF @ LF @
             ''Question: '' @ ''What is the rule against perpetuities?'' @ LF @ LF @
             ''Provide thorough legal analysis:'' @ LF @
             ''1. Identify the legal issue(s)'' @ LF @
             ''2. State the applicable rule(s) of law  '' @ LF @
             ''3. Apply the rule to the facts'' @ LF @
             ''4. Reach a conclusion''"
  let ?Q = "''You are a legal reasoning assistant helping with Texas bar exam preparation.'' @
             LF @ LF @
             ''Question: '' @ ''What is the rule against perpetuities?'' @ LF @ LF @
             ''Provide thorough legal analysis. If this is a legal question:'' @ LF @
             ''1. Identify the legal issue(s)'' @ LF @
             ''2. State the applicable rule(s) of law  '' @ LF @
             ''3. Apply the rule to the facts'' @ LF @
             ''4. Reach a conclusion''"
  have a: "extract_images (b64decode ?w) ?ms = Inr ([], ''What is the rule against perpetuities?'')"
    by (simp add: extract_images_def dict_get_def py_join_def)
  have b: "has_images ?ms = Inr (False, [], ''What is the rule against perpetuities?'')"
    by (simp add: has_images_def dict_get_def py_join_def)
  have d: "fragments (call_ollama_stream ?w default_valves ?P)
             = [PStr ''No interest'', PStr '' is good'']"
    by (simp add: call_ollama_stream_def sample_world_def streamed_def raise_for_status_def
        fragments_map_Emit)
  have e: "fragments (call_ollama ?w default_vision_valves
                        (REASONING_MODEL default_vision_valves) ?Q None True)
             = [PStr ''No interest'', PStr '' is good'']"
    by (simp add: call_ollama_def sample_world_def streamed_def raise_for_status_def
        fragments_map_Emit)
  note c6 = C6_no_images_bare_prompt
      [where w = ?w and messages = ?ms
         and text_content = "''What is the rule against perpetuities?''"
         and user_message = "''What is the rule against perpetuities?''"
         and v = default_valves and vv = default_vision_valves and body = PNone
         and has_image = False, unfolded Let_def]
  from c6 [where model_id = "''alice''"] a
  have "alice_pipe ?w default_valves ''What is the rule against perpetuities?'' ''alice'' ?ms PNone
          = Inr (call_ollama_stream ?w default_valves ?P)"
    and "call_ollama_stream ?w default_valves ?P =
            Post \<lparr>req_url = OLLAMA_HOST default_valves @ ''/api/generate'',
                  req_model = REASONING_MODEL default_valves,
                  req_prompt = ?P, req_stream = True, req_images = None,
                  req_temperature = TEMPERATURE default_valves, http_stream = True,
                  http_timeout = 300\<rparr>
            # map Emit (fragments (call_ollama_stream ?w default_valves ?P))"
    by blast+
  with d have alice: "alice_pipe ?w default_valves ''What is the rule against perpetuities?''
                        ''alice'' ?ms PNone
          = Inr [Post \<lparr>req_url = OLLAMA_HOST default_valves @ ''/api/generate'',
                  req_model = REASONING_MODEL default_valves,
                  req_prompt = ?P, req_stream = True, req_images = None,
                  req_temperature = TEMPERATURE default_valves, http_stream = True,
                  http_timeout = 300\<rparr>,
                 Emit (PStr ''No interest''), Emit (PStr '' is good'')]"
    by simp
  from c6 [where model_id = "''vision''"] b
  have "vision_pipe ?w default_vision_valves ''What is the rule against perpetuities?''
          ''vision'' ?ms PNone
          = Inr (call_ollama ?w default_vision_valves (REASONING_MODEL default_vision_valves)
                   ?Q None True)"
    and "call_ollama ?w default_vision_valves (REASONING_MODEL default_vision_valves) ?Q None True =
            Post \<lparr>req_url = OLLAMA_HOST default_vision_valves @ ''/api/generate'',
                  req_model = REASONING_MODEL default_vision_valves,
                  req_prompt = ?Q, req_stream = True, req_images = None,
                  req_temperature = TEMPERATURE default_vision_valves, http_stream = True,
                  http_timeout = 300\<rparr>
            # map Emit (fragments (call_ollama ?w default_vision_valves
                                     (REASONING_MODEL default_vision_valves) ?Q None True))"
    by blast+
  with e have vision: "vision_pipe ?w default_vision_valves
                         ''What is the rule against perpetuities?'' ''vision'' ?ms PNone
          = Inr [Post \<lparr>req_url = OLLAMA_HOST default_vision_valves @ ''/api/generate'',
                  req_model = REASONING_MODEL default_vision_valves,
                  req_prompt = ?Q, req_stream = True, req_images = None,
                  req_temperature = TEMPERATURE default_vision_valves, http_stream = True,
                  http_timeout = 300\<rparr>,
                 Emit (PStr ''No interest''), Emit (PStr '' is good'')]"
    by simp
  from alice vision show ?thesis
    by (simp add: default_valves_def default_vision_valves_def)
qed

section \<open>The OCR stage\<close>

text \<open>The loop with its accumulator is a map over the images, in their order.\<close>

lemma ocr_loop_eq:
  "ocr_loop w all_text images = (map Ocr images, all_text @ map (ocr_image w) images)"
  by (induction images arbitrary: all_text) simp_all

text \<open>
  What \<open>strip\<close> returns: the string is the result between two runs of white space
  characters, and the result neither starts nor ends with one.
\<close>

lemma strip_leading_prefix:
  "\<exists>ps. set ps \<subseteq> set ws \<and> s = concat ps @ strip_leading ws s"
proof (induction ws s rule: strip_leading.induct)
  case (1 ws s)
  show ?case
  proof (cases "List.find (\<lambda>w. w \<noteq> [] \<and> startswith s w) ws")
    case None
    then have "strip_leading ws s = s"
      by (subst strip_leading.simps) simp
    then have "set [] \<subseteq> set ws \<and> s = concat [] @ strip_leading ws s"
      by simp
    then show ?thesis by blast
  next
    case (Some w)
    then have w: "w \<in> set ws" and sw: "startswith s w"
      by (auto simp: find_Some_iff)
    from Some have eq: "strip_leading ws s = strip_leading ws (drop (length w) s)"
      by (subst strip_leading.simps) simp
    from "1.IH" [OF Some] obtain ps where
      ps: "set ps \<subseteq> set ws" "drop (length w) s = concat ps @ strip_leading ws (drop (length w) s)"
      by blast
    from sw have "s = w @ drop (length w) s"
      by (metis append_take_drop_id startswith_def)
    with ps eq have "s = concat (w # ps) @ strip_leading ws s"
      by simp
    moreover from w ps(1) have "set (w # ps) \<subseteq> set ws"
      by simp
    ultimately show ?thesis by blast
  qed
qed

lemma strip_leading_done:
  "w \<in> set ws \<Longrightarrow> w \<noteq> [] \<Longrightarrow> \<not> startswith (strip_leading ws s) w"
proof (induction ws s rule: strip_leading.induct)
  case (1 ws s)
  show ?case
  proof (cases "List.find (\<lambda>w. w \<noteq> [] \<and> startswith s w) ws")
    case None
    then have "strip_leading ws s = s"
      by (subst strip_leading.simps) simp
    with None "1.prems" show ?thesis
      by (auto simp: find_None_iff)
  next
    case (Some u)
    then have "strip_leading ws s = strip_leading ws (drop (length u) s)"
      by (subst strip_leading.simps) simp
    with "1.IH" [OF Some "1.prems"] show ?thesis
      by simp
  qed
qed

lemma py_whitespace_nonempty: "w \<in> set py_whitespace \<Longrightarrow> w \<noteq> []"
  by (auto simp: py_whitespace_def)

lemma strip_spec:
  "(\<exists>ps qs. set ps \<subseteq> set py_whitespace \<and> set qs \<subseteq> set py_whitespace \<and>
            s = concat ps @ strip s @ concat qs) \<and>
   (\<forall>w \<in> set py_whitespace. take (length w) (strip s) \<noteq> w) \<and>
   (\<forall>w \<in> set py_whitespace. take (length w) (rev (strip s)) \<noteq> rev w)"
proof -
  define mid where "mid = strip_leading py_whitespace s"
  from strip_leading_prefix [of py_whitespace s] obtain ps where
    ps: "set ps \<subseteq> set py_whitespace" "s = concat ps @ mid"
    unfolding mid_def by blast
  from strip_leading_prefix [of "map rev py_whitespace" "rev mid"] obtain rs where
    rs: "set rs \<subseteq> set (map rev py_whitespace)"
        "rev mid = concat rs @ strip_leading (map rev py_whitespace) (rev mid)"
    by blast
  have out: "strip s = rev (strip_leading (map rev py_whitespace) (rev mid))"
    by (simp add: strip_def mid_def)
  from rs(2) have "rev (rev mid) = rev (concat rs @ rev (strip s))"
    by (simp add: out)
  then have mid: "mid = strip s @ concat (map rev (rev rs))"
    by (simp add: rev_concat)
  from rs(1) have "set (map rev (rev rs)) \<subseteq> set py_whitespace"
    by auto
  with ps mid have a: "\<exists>ps qs. set ps \<subseteq> set py_whitespace \<and> set qs \<subseteq> set py_whitespace \<and>
            s = concat ps @ strip s @ concat qs"
    by blast
  have b: "take (length w) (strip s) \<noteq> w" if w: "w \<in> set py_whitespace" for w
  proof
    assume t: "take (length w) (strip s) = w"
    then have "length w \<le> length (strip s)"
      by (metis length_take min.cobounded1)
    with t mid have "take (length w) mid = w"
      by simp
    moreover from strip_leading_done [OF w py_whitespace_nonempty [OF w], of s]
    have "\<not> startswith mid w" by (simp add: mid_def)
    ultimately show False by (simp add: startswith_def)
  qed
  have c: "take (length w) (rev (strip s)) \<noteq> rev w" if w: "w \<in> set py_whitespace" for w
  proof -
    from w have "rev w \<in> set (map rev py_whitespace)" by simp
    moreover from w have "rev w \<noteq> []" by (simp add: py_whitespace_nonempty)
    ultimately have "\<not> startswith (strip_leading (map rev py_whitespace) (rev mid)) (rev w)"
      by (rule strip_leading_done)
    then show ?thesis
      by (simp add: out startswith_def)
  qed
  from a b c show ?thesis by blast
qed

text \<open>
  Claim C7, as the code has it. The OCR stage calls \<^verbatim>\<open>_ocr_image\<close> once per image, in
  input order. There is one output per image, \<open>outs\<close> in the order of the images, and the
  output of the stage is these outputs with a blank line (two line feeds) between
  neighbours. The output for an image is one of three strings, not two: the fixed string
  \<^verbatim>\<open>Error: pytesseract not installed\<close> when the OCR library is missing; otherwise
  \<^verbatim>\<open>Error reading image: <message>\<close> when opening or recognising that image raises, or
  the recognised text without its leading and trailing white space (the text is the output
  between two runs of white space characters of Python, and the output neither starts nor
  ends with one). No image makes the batch fail.
\<close>

theorem C7_ocr_stage_in_order:
  "fst (ocr_stage w images) = map Ocr images \<and>
   (\<exists>outs. length outs = length images \<and>
      snd (ocr_stage w images) =
        (case outs of [] \<Rightarrow> [] | x # xs \<Rightarrow> x @ concat (map (\<lambda>y. LF @ LF @ y) xs)) \<and>
      (\<forall>i < length images.
         (\<not> TESSERACT_AVAILABLE w \<longrightarrow> outs ! i = ''Error: pytesseract not installed'') \<and>
         (TESSERACT_AVAILABLE w \<longrightarrow>
            (\<forall>e. image_to_string w (images ! i) = Inl e \<longrightarrow>
                 outs ! i = ''Error reading image: '' @ e) \<and>
            (\<forall>text. image_to_string w (images ! i) = Inr text \<longrightarrow>
                 (\<exists>ps qs. set ps \<subseteq> set py_whitespace \<and> set qs \<subseteq> set py_whitespace \<and>
                          text = concat ps @ outs ! i @ concat qs) \<and>
                 (\<forall>s \<in> set py_whitespace. take (length s) (outs ! i) \<noteq> s) \<and>
                 (\<forall>s \<in> set py_whitespace. take (length s) (rev (outs ! i)) \<noteq> rev s)))))"
  (is "_ \<and> (\<exists>outs. ?P outs)")
proof -
  let ?outs = "map (ocr_image w) images"
  have calls: "fst (ocr_stage w images) = map Ocr images"
    by (simp add: ocr_stage_def ocr_loop_eq)
  have joined: "snd (ocr_stage w images) =
        (case ?outs of [] \<Rightarrow> [] | x # xs \<Rightarrow> x @ concat (map (\<lambda>y. LF @ LF @ y) xs))"
  proof -
    have "(\<lambda>y. (LF @ LF) @ y) = (\<lambda>y. LF @ LF @ y)"
      by (rule ext) simp
    with join_str_concat [of "LF @ LF" ?outs]
    have "join_str (LF @ LF) ?outs =
            (case ?outs of [] \<Rightarrow> [] | x # xs \<Rightarrow> x @ concat (map (\<lambda>y. LF @ LF @ y) xs))"
      by (simp only:)
    moreover have "snd (ocr_stage w images) = join_str (LF @ LF) ?outs"
      by (simp add: ocr_stage_def ocr_loop_eq)
    ultimately show ?thesis
      by (simp only:)
  qed
  have each: "\<forall>i < length images.
         (\<not> TESSERACT_AVAILABLE w \<longrightarrow> ?outs ! i = ''Error: pytesseract not installed'') \<and>
         (TESSERACT_AVAILABLE w \<longrightarrow>
            (\<forall>e. image_to_string w (images ! i) = Inl e \<longrightarrow>
                 ?outs ! i = ''Error reading image: '' @ e) \<and>
            (\<forall>text. image_to_string w (images ! i) = Inr text \<longrightarrow>
                 (\<exists>ps qs. set ps \<subseteq> set py_whitespace \<and> set qs \<subseteq> set py_whitespace \<and>
                          text = concat ps @ ?outs ! i @ concat qs) \<and>
                 (\<forall>s \<in> set py_whitespace. take (length s) (?outs ! i) \<noteq> s) \<and>
                 (\<forall>s \<in> set py_whitespace. take (length s) (rev (?outs ! i)) \<noteq> rev s)))"
  proof (intro allI impI conjI)
    fix i
    assume "i < length images" and "\<not> TESSERACT_AVAILABLE w"
    then show "?outs ! i = ''Error: pytesseract not installed''"
      by (simp add: ocr_image_def)
  next
    fix i e
    assume "i < length images" and "TESSERACT_AVAILABLE w"
      and "image_to_string w (images ! i) = Inl e"
    then show "?outs ! i = ''Error reading image: '' @ e"
      by (simp add: ocr_image_def)
  next
    fix i t
    assume "i < length images" and "TESSERACT_AVAILABLE w"
      and "image_to_string w (images ! i) = Inr t"
    then have o: "?outs ! i = strip t"
      by (simp add: ocr_image_def)
    from strip_spec [of t]
    show "\<exists>ps qs. set ps \<subseteq> set py_whitespace \<and> set qs \<subseteq> set py_whitespace \<and>
                   t = concat ps @ ?outs ! i @ concat qs"
      unfolding o by blast
    from strip_spec [of t]
    show "\<forall>s \<in> set py_whitespace. take (length s) (?outs ! i) \<noteq> s"
      unfolding o by blast
    from strip_spec [of t]
    show "\<forall>s \<in> set py_whitespace. take (length s) (rev (?outs ! i)) \<noteq> rev s"
      unfolding o by blast
  qed
  from joined each have "?P ?outs"
    by simp
  with calls show ?thesis
    by blast
qed

text \<open>
  Claim C7 as stated fails where the OCR library is not installed: the engine would read
  \<^verbatim>\<open>Question 1\<close> from the image, and the output is neither that text nor a string
  starting with \<^verbatim>\<open>Error reading image: \<close>.
\<close>

theorem C7_counterexample:
  "image_to_string
     (sample_world (\<lambda>r. PostRaises ''down'') False (\<lambda>b. Inr ''Question 1'')) [0x89, 0x50]
     = Inr ''Question 1'' \<and>
   ocr_stage
     (sample_world (\<lambda>r. PostRaises ''down'') False (\<lambda>b. Inr ''Question 1'')) [[0x89, 0x50]]
     = ([Ocr [0x89, 0x50]], ''Error: pytesseract not installed'')"
  by (simp add: sample_world_def ocr_stage_def ocr_image_def)

theorem C7_witness:
  "ocr_stage
     (sample_world (\<lambda>r. PostRaises ''down'') True
        (\<lambda>b. if b = [0x89] then Inr ([CHR 0xC2, CHR 0xA0] @ ''Q1 '')
             else Inl ''cannot identify image file''))
     [[0x89], [0x50]]
   = ([Ocr [0x89], Ocr [0x50]],
      ''Q1'' @ LF @ LF @ ''Error reading image: cannot identify image file'') \<and>
   (\<exists>outs. length outs = 2 \<and>
      snd (ocr_stage
             (sample_world (\<lambda>r. PostRaises ''down'') True
                (\<lambda>b. if b = [0x89] then Inr ([CHR 0xC2, CHR 0xA0] @ ''Q1 '')
                     else Inl ''cannot identify image file''))
             [[0x89], [0x50]])
        = outs ! 0 @ LF @ LF @ outs ! 1 \<and>
      (\<exists>ps qs. set ps \<subseteq> set py_whitespace \<and> set qs \<subseteq> set py_whitespace \<and>
               [CHR 0xC2, CHR 0xA0] @ ''Q1 '' = concat ps @ outs ! 0 @ concat qs) \<and>
      (\<forall>s \<in> set py_whitespace. take (length s) (outs ! 0) \<noteq> s) \<and>
      (\<forall>s \<in> set py_whitespace. take (length s) (rev (outs ! 0)) \<noteq> rev s) \<and>
      outs ! 1 = ''Error reading image: cannot identify image file'')"
proof -
  let ?w = "sample_world (\<lambda>r. PostRaises ''down'') True
        (\<lambda>b. if b = [0x89] then Inr ([CHR 0xC2, CHR 0xA0] @ ''Q1 '')
             else Inl ''cannot identify image file'')"
  let ?imgs = "[[0x89], [0x50]] :: bytes list"
  have ev: "ocr_stage ?w ?imgs
              = ([Ocr [0x89], Ocr [0x50]],
                 ''Q1'' @ LF @ LF @ ''Error reading image: cannot identify image file'')"
    by (simp add: ocr_stage_def ocr_image_def sample_world_def strip_def py_whitespace_def
        startswith_def)
  have inst: "TESSERACT_AVAILABLE ?w"
    "image_to_string ?w (?imgs ! 0) = Inr ([CHR 0xC2, CHR 0xA0] @ ''Q1 '')"
    "image_to_string ?w (?imgs ! 1) = Inl ''cannot identify image file''"
    by (simp_all add: sample_world_def)
  from C7_ocr_stage_in_order [of ?w ?imgs, THEN conjunct2] obtain outs where
    l: "length outs = length ?imgs"
    and j: "snd (ocr_stage ?w ?imgs) =
              (case outs of [] \<Rightarrow> [] | x # xs \<Rightarrow> x @ concat (map (\<lambda>y. LF @ LF @ y) xs))"
    and e: "\<forall>i < length ?imgs.
         (\<not> TESSERACT_AVAILABLE ?w \<longrightarrow> outs ! i = ''Error: pytesseract not installed'') \<and>
         (TESSERACT_AVAILABLE ?w \<longrightarrow>
            (\<forall>e. image_to_string ?w (?imgs ! i) = Inl e \<longrightarrow>
                 outs ! i = ''Error reading image: '' @ e) \<and>
            (\<forall>text. image_to_string ?w (?imgs ! i) = Inr text \<longrightarrow>
                 (\<exists>ps qs. set ps \<subseteq> set py_whitespace \<and> set qs \<subseteq> set py_whitespace \<and>
                          text = concat ps @ outs ! i @ concat qs) \<and>
                 (\<forall>s \<in> set py_whitespace. take (length s) (outs ! i) \<noteq> s) \<and>
                 (\<forall>s \<in> set py_whitespace. take (length s) (rev (outs ! i)) \<noteq> rev s)))"
    by blast
  from l obtain a b where ab: "outs = [a, b]"
    by (auto simp: length_Suc_conv)
  from e [rule_format, of 0] inst(1,2)
  have first: "(\<exists>ps qs. set ps \<subseteq> set py_whitespace \<and> set qs \<subseteq> set py_whitespace \<and>
                 [CHR 0xC2, CHR 0xA0] @ ''Q1 '' = concat ps @ outs ! 0 @ concat qs) \<and>
               (\<forall>s \<in> set py_whitespace. take (length s) (outs ! 0) \<noteq> s) \<and>
               (\<forall>s \<in> set py_whitespace. take (length s) (rev (outs ! 0)) \<noteq> rev s)"
    by simp
  from e [rule_format, of 1] inst(1,3)
  have second: "outs ! 1 = ''Error reading image: cannot identify image file''"
    by simp
  from j ab have joined: "snd (ocr_stage ?w ?imgs) = outs ! 0 @ LF @ LF @ outs ! 1"
    by simp
  from l have "length outs = 2"
    by simp
  with joined first second have "\<exists>outs. length outs = 2 \<and>
      snd (ocr_stage ?w ?imgs) = outs ! 0 @ LF @ LF @ outs ! 1 \<and>
      (\<exists>ps qs. set ps \<subseteq> set py_whitespace \<and> set qs \<subseteq> set py_whitespace \<and>
               [CHR 0xC2, CHR 0xA0] @ ''Q1 '' = concat ps @ outs ! 0 @ concat qs) \<and>
      (\<forall>s \<in> set py_whitespace. take (length s) (outs ! 0) \<noteq> s) \<and>
      (\<forall>s \<in> set py_whitespace. take (length s) (rev (outs ! 0)) \<noteq> rev s) \<and>
      outs ! 1 = ''Error reading image: cannot identify image file''"
    by blast
  with ev show ?thesis
    by blast
qed

section \<open>Stage 1 on an empty image list\<close>

text \<open>
  Claim C8, as the code has it. On an empty image list the OCR stage of Alice Paralegal
  calls nothing and its output is the empty string. \<^verbatim>\<open>_call_ollama_sync\<close> of Legal
  Vision treats the empty list as it treats \<^verbatim>\<open>None\<close>: it leaves the
  \<^verbatim>\<open>images\<close> key out of the payload and still posts its one request, and what it
  returns is the backend's answer to that request. Both are functions of their arguments:
  the events listed are all they do, and the image list, the valves and the messages are
  read and never written.
\<close>

theorem C8_empty_image_list:
  "ocr_stage w [] = ([], '''') \<and>
   call_ollama_sync w v model prompt (Some []) = call_ollama_sync w v model prompt None \<and>
   fst (call_ollama_sync w v model prompt (Some [])) =
     [Post \<lparr>req_url = OLLAMA_HOST v @ ''/api/generate'', req_model = model,
            req_prompt = prompt, req_stream = False, req_images = None,
            req_temperature = TEMPERATURE v, http_stream = False, http_timeout = 300\<rparr>] \<and>
   (requests_post w
      \<lparr>req_url = OLLAMA_HOST v @ ''/api/generate'', req_model = model,
       req_prompt = prompt, req_stream = False, req_images = None,
       req_temperature = TEMPERATURE v, http_stream = False, http_timeout = 300\<rparr>
      = Responded r \<and>
    \<not> (400 \<le> status_code r \<and> status_code r < 600) \<and>
    body_json r = Inr (PDict data) \<and>
    map_of data ''response'' = Some answer \<longrightarrow>
    snd (call_ollama_sync w v model prompt (Some [])) = answer)"
proof (intro conjI impI)
  show "ocr_stage w [] = ([], '''')"
    by (simp add: ocr_stage_def)
  show "call_ollama_sync w v model prompt (Some []) = call_ollama_sync w v model prompt None"
    by (simp add: call_ollama_sync_def payload_images_def)
  show "fst (call_ollama_sync w v model prompt (Some [])) =
     [Post \<lparr>req_url = OLLAMA_HOST v @ ''/api/generate'', req_model = model,
            req_prompt = prompt, req_stream = False, req_images = None,
            req_temperature = TEMPERATURE v, http_stream = False, http_timeout = 300\<rparr>]"
    by (simp add: call_ollama_sync_def payload_images_def Let_def)
next
  assume h: "requests_post w
      \<lparr>req_url = OLLAMA_HOST v @ ''/api/generate'', req_model = model,
       req_prompt = prompt, req_stream = False, req_images = None,
       req_temperature = TEMPERATURE v, http_stream = False, http_timeout = 300\<rparr>
      = Responded r \<and>
    \<not> (400 \<le> status_code r \<and> status_code r < 600) \<and>
    body_json r = Inr (PDict data) \<and>
    map_of data ''response'' = Some answer"
  then have "raise_for_status r = None"
    by (simp add: raise_for_status_def)
  moreover from h have "json_response w r = Inr answer"
    by (simp add: json_response_def dict_get_def)
  ultimately show "snd (call_ollama_sync w v model prompt (Some [])) = answer"
    using h by (simp add: call_ollama_sync_def payload_images_def)
qed

text \<open>
  Claim C8 as stated fails for \<^verbatim>\<open>_call_ollama_sync\<close>: with an empty image list a
  request goes to the vision model and the output is not empty.
\<close>

theorem C8_counterexample:
  "call_ollama_sync
     (sample_world (\<lambda>r. answered 200 (PDict [(''response'', PStr ''A cat.'')])) True (\<lambda>b. Inr ''text''))
     default_vision_valves ''llava:13b'' ''Describe this image'' (Some [])
   = ([Post \<lparr>req_url = ''http://host.docker.internal:11434/api/generate'',
              req_model = ''llava:13b'', req_prompt = ''Describe this image'',
              req_stream = False, req_images = None, req_temperature = 3 / 10,
              http_stream = False, http_timeout = 300\<rparr>],
      PStr ''A cat.'')"
  by (simp add: call_ollama_sync_def sample_world_def answered_def default_vision_valves_def
      payload_images_def raise_for_status_def json_response_def dict_get_def)

theorem C8_witness:
  "snd (call_ollama_sync
     (sample_world (\<lambda>r. answered 200 (PDict [(''response'', PStr ''A cat.'')])) True (\<lambda>b. Inr ''text''))
     default_vision_valves ''llava:13b'' ''Describe this image'' (Some [])) = PStr ''A cat.''"
proof -
  let ?w = "sample_world (\<lambda>r. answered 200 (PDict [(''response'', PStr ''A cat.'')])) True
              (\<lambda>b. Inr ''text'')"
  let ?r = "\<lparr>status_code = 200, http_error = ''HTTP error'', body_lines = [],
             body_break = None, body_json = Inr (PDict [(''response'', PStr ''A cat.'')])\<rparr>"
  have "requests_post ?w
      \<lparr>req_url = OLLAMA_HOST default_vision_valves @ ''/api/generate'', req_model = ''llava:13b'',
       req_prompt = ''Describe this image'', req_stream = False, req_images = None,
       req_temperature = TEMPERATURE default_vision_valves, http_stream = False,
       http_timeout = 300\<rparr>
      = Responded ?r \<and>
    \<not> (400 \<le> status_code ?r \<and> status_code ?r < 600) \<and>
    body_json ?r = Inr (PDict [(''response'', PStr ''A cat.'')]) \<and>
    map_of [(''response'', PStr ''A cat.'')] ''response'' = Some (PStr ''A cat.'')"
    by (simp add: sample_world_def answered_def)
  with C8_empty_image_list
         [of ?w default_vision_valves "''llava:13b''" "''Describe this image''" ?r
             "[(''response'', PStr ''A cat.'')]" "PStr ''A cat.''"]
  show ?thesis by blast
qed

section \<open>The dispatchers with images\<close>

lemma requests_call_ollama_stream:
  "requests (call_ollama_stream w v prompt) =
     [\<lparr>req_url = OLLAMA_HOST v @ ''/api/generate'', req_model = REASONING_MODEL v,
       req_prompt = prompt, req_stream = True, req_images = None,
       req_temperature = TEMPERATURE v, http_stream = True, http_timeout = 300\<rparr>]"
  by (simp add: call_ollama_stream_def Let_def requests_map_Emit)

lemma requests_call_ollama:
  "requests (call_ollama w v model prompt images stream) =
     [\<lparr>req_url = OLLAMA_HOST v @ ''/api/generate'', req_model = model,
       req_prompt = prompt, req_stream = stream, req_images = payload_images images,
       req_temperature = TEMPERATURE v, http_stream = stream, http_timeout = 300\<rparr>]"
  by (simp add: call_ollama_def Let_def requests_map_Emit)

lemma call_ollama_sync_request:
  "fst (call_ollama_sync w v model prompt images) =
     [Post \<lparr>req_url = OLLAMA_HOST v @ ''/api/generate'', req_model = model,
            req_prompt = prompt, req_stream = False, req_images = payload_images images,
            req_temperature = TEMPERATURE v, http_stream = False, http_timeout = 300\<rparr>]"
  by (simp add: call_ollama_sync_def Let_def)

lemma alice_pipe_images:
  assumes "extract_images (b64decode w) messages = Inr (images, text_content)"
    and "images \<noteq> []"
  shows "\<exists>tr. alice_pipe w v user_message model_id messages body = Inr tr \<and>
              map (\<lambda>r. (req_model r, req_prompt r)) (requests tr)
                = [(REASONING_MODEL v,
                    alice_image_prompt (snd (ocr_stage w images)) user_message)]"
  using assms
  by (simp add: alice_pipe_def split_beta requests_append requests_call_ollama_stream
      ocr_stage_def ocr_loop_eq requests_map_Ocr)

lemma vision_pipe_images:
  assumes "has_images messages = Inr (has_image, images, text_content)"
    and "images \<noteq> []"
  shows "\<exists>tr. vision_pipe w v user_message model_id messages body = Inr tr \<and>
              map (\<lambda>r. (req_model r, req_prompt r)) (requests tr)
                = [(VISION_MODEL v, vision_prompt user_message text_content),
                   (REASONING_MODEL v,
                    vision_reasoning_prompt
                     (py_str w (snd (call_ollama_sync w v (VISION_MODEL v)
                                       (vision_prompt user_message text_content) (Some images))))
                     user_message)]"
proof -
  from assms have "has_image" using has_images_flag by blast
  with assms(1) show ?thesis
    by (simp add: vision_pipe_def split_beta requests_append requests_call_ollama
      call_ollama_sync_request [simplified fst_conv])
qed

text \<open>
  Claim C9. In the image branch the reasoning prompt carries the user's message when it is
  not empty and a fixed question when it is empty: \<^verbatim>\<open>What is the correct answer?\<close>
  in Alice Paralegal, \<^verbatim>\<open>Analyze this and provide legal reasoning.\<close> in Legal Vision.
  The test is the truthiness of \<^verbatim>\<open>user_message\<close>, which the signature declares a
  \<^verbatim>\<open>str\<close>, so the empty string is the falsy value. The run returns, and its
  requests are listed with their model and prompt.
\<close>

theorem C9_fallback_question:
  "(extract_images (b64decode w) messages = Inr (images, text_content) \<and> images \<noteq> [] \<longrightarrow>
      (\<exists>tr. alice_pipe w v user_message model_id messages body = Inr tr \<and>
            map (\<lambda>r. (req_model r, req_prompt r)) (requests tr) =
              [(REASONING_MODEL v,
                ''You are a legal reasoning assistant for Texas bar exam preparation.'' @ LF @ LF @
                ''Here is the question extracted from the image:'' @ LF @
                snd (ocr_stage w images) @ LF @ LF @
                ''User asks: '' @
                (if user_message = [] then ''What is the correct answer?'' else user_message) @
                LF @ LF @
                ''Provide thorough legal analysis:'' @ LF @
                ''1. Identify the legal issue(s) being tested'' @ LF @
                ''2. State the applicable rule(s) of law'' @ LF @
                ''3. Apply the rule to these specific facts'' @ LF @
                ''4. Analyze each answer choice - explain why it is correct or incorrect'' @ LF @
                ''5. State the best answer with confidence'')])) \<and>
   (has_images messages = Inr (has_image, base64_images, text_content) \<and> base64_images \<noteq> [] \<longrightarrow>
      (\<exists>tr. vision_pipe w vv user_message model_id messages body = Inr tr \<and>
            map (\<lambda>r. (req_model r, req_prompt r)) (requests tr) =
              [(VISION_MODEL vv, vision_prompt user_message text_content),
               (REASONING_MODEL vv,
                ''You are a legal reasoning assistant helping with Texas bar exam preparation.'' @
                LF @ LF @
                ''Based on this image content:'' @ LF @
                py_str w (snd (call_ollama_sync w vv (VISION_MODEL vv)
                                 (vision_prompt user_message text_content)
                                 (Some base64_images))) @ LF @ LF @
                ''User's question: '' @
                (if user_message = [] then ''Analyze this and provide legal reasoning.''
                 else user_message) @ LF @ LF @
                ''Provide thorough legal analysis. If this is a multiple choice question:'' @ LF @
                ''1. Identify the legal issue(s)'' @ LF @
                ''2. State the applicable rule(s) of law'' @ LF @
                ''3. Apply the rule to the facts'' @ LF @
                ''4. Explain why each answer choice is correct or incorrect'' @ LF @
                ''5. State the best answer with confidence'')]))"
  (is "(?A \<longrightarrow> (\<exists>tr. _ \<and> _ = [(_, ?P)])) \<and> (?B \<longrightarrow> (\<exists>tr. _ \<and> _ = [_, (_, ?Q)]))")
proof (intro conjI impI)
  have p: "alice_image_prompt (snd (ocr_stage w images)) user_message = ?P"
    by (simp add: alice_image_prompt_def)
  assume ?A
  then show "\<exists>tr. alice_pipe w v user_message model_id messages body = Inr tr \<and>
            map (\<lambda>r. (req_model r, req_prompt r)) (requests tr) = [(REASONING_MODEL v, ?P)]"
    using alice_pipe_images [of w messages images text_content v user_message model_id body]
    unfolding p by blast
next
  have q: "vision_reasoning_prompt
             (py_str w (snd (call_ollama_sync w vv (VISION_MODEL vv)
                               (vision_prompt user_message text_content) (Some base64_images))))
             user_message = ?Q"
    by (simp add: vision_reasoning_prompt_def)
  assume ?B
  then show "\<exists>tr. vision_pipe w vv user_message model_id messages body = Inr tr \<and>
            map (\<lambda>r. (req_model r, req_prompt r)) (requests tr) =
              [(VISION_MODEL vv, vision_prompt user_message text_content),
               (REASONING_MODEL vv, ?Q)]"
    using vision_pipe_images
            [of messages has_image base64_images text_content w vv user_message model_id body]
    unfolding q by blast
qed

theorem C9_witness:
  "(\<exists>tr. alice_pipe
           (sample_world
              (\<lambda>r. if req_stream r
                   then streamed 200 [Json (PDict [(''response'', PStr ''B.'')])] None
                   else answered 200 (PDict [(''response'', PStr ''A lease question.'')]))
              True (\<lambda>b. Inr '' Which answer? ''))
           default_valves '''' ''alice'' [image_message ''data:image/png;base64,QUJD''] PNone
         = Inr tr \<and>
         map (\<lambda>r. (req_model r, req_prompt r)) (requests tr) =
           [(''deepseek-r1:8b'',
             ''You are a legal reasoning assistant for Texas bar exam preparation.'' @ LF @ LF @
             ''Here is the question extracted from the image:'' @ LF @
             ''Which answer?'' @ LF @ LF @
             ''User asks: What is the correct answer?'' @ LF @ LF @
             ''Provide thorough legal analysis:'' @ LF @
             ''1. Identify the legal issue(s) being tested'' @ LF @
             ''2. State the applicable rule(s) of law'' @ LF @
             ''3. Apply the rule to these specific facts'' @ LF @
             ''4. Analyze each answer choice - explain why it is correct or incorrect'' @ LF @
             ''5. State the best answer with confidence'')]) \<and>
   (\<exists>tr. vision_pipe
           (sample_world
              (\<lambda>r. if req_stream r
                   then streamed 200 [Json (PDict [(''response'', PStr ''B.'')])] None
                   else answered 200 (PDict [(''response'', PStr ''A lease question.'')]))
              True (\<lambda>b. Inr '' Which answer? ''))
           default_vision_valves '''' ''vision'' [image_message ''data:image/png;base64,QUJD''] PNone
         = Inr tr \<and>
         map (\<lambda>r. (req_model r, req_prompt r)) (requests tr) =
           [(''llava:13b'', vision_prompt '''' ''''),
            (''deepseek-r1:8b'',
             ''You are a legal reasoning assistant helping with Texas bar exam preparation.'' @
             LF @ LF @
             ''Based on this image content:'' @ LF @
             ''A lease question.'' @ LF @ LF @
             ''User's question: Analyze this and provide legal reasoning.'' @ LF @ LF @
             ''Provide thorough legal analysis. If this is a multiple choice question:'' @ LF @
             ''1. Identify the legal issue(s)'' @ LF @
             ''2. State the applicable rule(s) of law'' @ LF @
             ''3. Apply the rule to the facts'' @ LF @
             ''4. Explain why each answer choice is correct or incorrect'' @ LF @
             ''5. State the best answer with confidence'')])"
proof -
  let ?w = "sample_world
              (\<lambda>r. if req_stream r
                   then streamed 200 [Json (PDict [(''response'', PStr ''B.'')])] None
                   else answered 200 (PDict [(''response'', PStr ''A lease question.'')]))
              True (\<lambda>b. Inr '' Which answer? '')"
  let ?ms = "[image_message ''data:image/png;base64,QUJD'']"
  have a: "extract_images (b64decode ?w) ?ms = Inr ([[65, 66, 67]], '''')"
    by (simp add: sample_world_def image_message_def extract_images_def dict_get_def
        startswith_def decode_data_url_def py_index_def b64decode_cpython_def b64_value_def
        py_join_def)
  have b: "has_images ?ms = Inr (True, [''QUJD''], '''')"
    by (simp add: image_message_def has_images_def dict_get_def startswith_def
        data_url_payload_def py_index_def py_join_def)
  have o: "snd (ocr_stage ?w [[65, 66, 67]]) = ''Which answer?''"
    by (simp add: ocr_stage_def ocr_image_def sample_world_def strip_def py_whitespace_def startswith_def)
  have d: "py_str ?w (snd (call_ollama_sync ?w default_vision_valves
                             ''llava:13b''
                             (vision_prompt '''' '''') (Some [''QUJD''])))
           = ''A lease question.''"
    by (simp add: call_ollama_sync_def sample_world_def answered_def raise_for_status_def
        json_response_def dict_get_def py_str_def)
  have m: "REASONING_MODEL default_valves = ''deepseek-r1:8b''"
    "REASONING_MODEL default_vision_valves = ''deepseek-r1:8b''"
    "VISION_MODEL default_vision_valves = ''llava:13b''"
    by (simp_all add: default_valves_def default_vision_valves_def)
  note c9 = C9_fallback_question
      [of ?w ?ms "[[65, 66, 67]]" "''''" default_valves "''''" "''alice''" PNone
          True "[''QUJD'']" default_vision_valves]
  from c9 a have "\<exists>tr. alice_pipe ?w default_valves '''' ''alice'' ?ms PNone = Inr tr \<and>
         map (\<lambda>r. (req_model r, req_prompt r)) (requests tr) =
           [(''deepseek-r1:8b'',
             ''You are a legal reasoning assistant for Texas bar exam preparation.'' @ LF @ LF @
             ''Here is the question extracted from the image:'' @ LF @
             ''Which answer?'' @ LF @ LF @
             ''User asks: What is the correct answer?'' @ LF @ LF @
             ''Provide thorough legal analysis:'' @ LF @
             ''1. Identify the legal issue(s) being tested'' @ LF @
             ''2. State the applicable rule(s) of law'' @ LF @
             ''3. Apply the rule to these specific facts'' @ LF @
             ''4. Analyze each answer choice - explain why it is correct or incorrect'' @ LF @
             ''5. State the best answer with confidence'')]"
    unfolding o m by simp
  moreover
  note c9' = C9_fallback_question
      [of ?w ?ms "[[65, 66, 67]]" "''''" default_valves "''''" "''vision''" PNone
          True "[''QUJD'']" default_vision_valves]
  from c9' b have "\<exists>tr. vision_pipe ?w default_vision_valves '''' ''vision'' ?ms PNone = Inr tr \<and>
         map (\<lambda>r. (req_model r, req_prompt r)) (requests tr) =
           [(''llava:13b'', vision_prompt '''' ''''),
            (''deepseek-r1:8b'',
             ''You are a legal reasoning assistant helping with Texas bar exam preparation.'' @
             LF @ LF @
             ''Based on this image content:'' @ LF @
             ''A lease question.'' @ LF @ LF @
             ''User's question: Analyze this and provide legal reasoning.'' @ LF @ LF @
             ''Provide thorough legal analysis. If this is a multiple choice question:'' @ LF @
             ''1. Identify the legal issue(s)'' @ LF @
             ''2. State the applicable rule(s) of law'' @ LF @
             ''3. Apply the rule to the facts'' @ LF @
             ''4. Explain why each answer choice is correct or incorrect'' @ LF @
             ''5. State the best answer with confidence'')]"
    unfolding d m by simp
  ultimately show ?thesis by blast
qed

section \<open>A response without the \<^verbatim>\<open>response\<close> field\<close>

text \<open>
  Claim C10. In the Legal Vision variant, when the request is answered, the status is not
  one that \<^verbatim>\<open>raise_for_status\<close> rejects and the JSON body is an object without the key
  \<^verbatim>\<open>response\<close>, then \<^verbatim>\<open>_call_ollama_sync\<close> returns the empty string and
  \<^verbatim>\<open>_call_ollama\<close> with \<^verbatim>\<open>stream=False\<close> yields the empty string and nothing
  else: no error string, no exception.
\<close>

theorem C10_missing_response_field:
  assumes "requests_post w
             \<lparr>req_url = OLLAMA_HOST v @ ''/api/generate'', req_model = model,
              req_prompt = prompt, req_stream = False, req_images = payload_images images,
              req_temperature = TEMPERATURE v, http_stream = False, http_timeout = 300\<rparr>
           = Responded r"
    and "\<not> (400 \<le> status_code r \<and> status_code r < 600)"
    and "body_json r = Inr (PDict data)"
    and "map_of data ''response'' = None"
  shows "snd (call_ollama_sync w v model prompt images) = PStr '''' \<and>
         fragments (call_ollama w v model prompt images False) = [PStr '''']"
proof -
  from assms(2) have "raise_for_status r = None"
    by (simp add: raise_for_status_def)
  moreover from assms(3,4) have "json_response w r = Inr (PStr '''')"
    by (simp add: json_response_def dict_get_def)
  ultimately show ?thesis
    using assms(1) by (simp add: call_ollama_sync_def call_ollama_def)
qed

theorem C10_witness:
  "snd (call_ollama_sync
          (sample_world (\<lambda>r. answered 200 (PDict [(''done'', PBool True)])) True (\<lambda>b. Inr ''text''))
          default_vision_valves ''llava:13b'' ''Describe this image'' (Some [''QUJD''])) = PStr '''' \<and>
   fragments (call_ollama
          (sample_world (\<lambda>r. answered 200 (PDict [(''done'', PBool True)])) True (\<lambda>b. Inr ''text''))
          default_vision_valves ''llava:13b'' ''Describe this image'' (Some [''QUJD'']) False) = [PStr '''']"
  by (rule C10_missing_response_field
        [where r = "\<lparr>status_code = 200, http_error = ''HTTP error'', body_lines = [],
                       body_break = None, body_json = Inr (PDict [(''done'', PBool True)])\<rparr>"
           and data = "[(''done'', PBool True)]"])
     (simp_all add: sample_world_def answered_def)

end
